theory Spec2Isabelle
  imports Complex_Main "HOL-Library.AList"
begin

section \<open>JavaScript values used by the time-axis services\<close>

text \<open>
  A \<^verbatim>\<open>Date\<close> object holds a time value: an integral number of milliseconds since the
  epoch, or \<^verbatim>\<open>NaN\<close> for an Invalid Date. A Date is modelled by \<open>msec option\<close>, where
  \<open>None\<close> is the Invalid Date, and "Date or null" by \<open>date option\<close>.
  Relational operators on Dates compare the time values as numbers, so every comparison
  with an Invalid Date is false.
\<close>

type_synonym msec = int
type_synonym date = "msec option"

text \<open>What a \<^verbatim>\<open>postime\<close> field or a time argument can hold: nothing
  (\<^verbatim>\<open>null\<close>/\<^verbatim>\<open>undefined\<close>), a string, or a Date object.\<close>

datatype timeval = TNull | TStr string | TDate date

text \<open>
  The parts of the JavaScript runtime and of the colour table that the services call but
  that are not defined by the repository are taken as parameters:
  \<^item> \<open>newDate s\<close> is the time value of \<^verbatim>\<open>new Date(s)\<close> for a string \<open>s\<close>
    (\<open>None\<close> when the Date is invalid);
  \<^item> \<open>getFullYear t\<close> is \<^verbatim>\<open>getFullYear()\<close> of the Date with time value \<open>t\<close>
    (it depends on the local time zone);
  \<^item> \<open>getShipColor c\<close> is the colour that \<^verbatim>\<open>MultiShipManager.getShipColor\<close> returns for
    the flag code \<open>c\<close> (it depends on the shuffled colour table of the current load).
\<close>

record env =
  newDate :: "string \<Rightarrow> msec option"
  getFullYear :: "msec \<Rightarrow> int"
  getShipColor :: "string \<Rightarrow> string"

text \<open>Numbers are IEEE doubles in the source. A number is modelled by the real number that
  it denotes, and a field that is missing, \<^verbatim>\<open>null\<close> or \<^verbatim>\<open>NaN\<close> by \<open>None\<close>: all three are
  falsy, and so is the number \<open>0\<close>. The arithmetic of the interpolation rounds every result
  to the nearest double (\<open>roundDouble\<close> below); the bearing, which goes through
  \<^verbatim>\<open>Math.sin\<close>, \<^verbatim>\<open>Math.cos\<close> and \<^verbatim>\<open>Math.atan2\<close>, is computed on real numbers.\<close>

definition truthyN :: "real option \<Rightarrow> bool" where
  "truthyN v = (case v of None \<Rightarrow> False | Some x \<Rightarrow> x \<noteq> 0)"

definition truthyS :: "string option \<Rightarrow> bool" where
  "truthyS v = (case v of None \<Rightarrow> False | Some s \<Rightarrow> s \<noteq> [])"

definition truthyT :: "timeval \<Rightarrow> bool" where
  "truthyT v = (case v of TNull \<Rightarrow> False | TStr s \<Rightarrow> s \<noteq> [] | TDate d \<Rightarrow> True)"

text \<open>A trajectory point, with the fields the two services read.\<close>

record point =
  postime :: timeval
  timestamp :: timeval
  lon :: "real option"
  lng :: "real option"
  lat :: "real option"
  speed :: "real option"
  rot :: "real option"
  draught :: "real option"
  status :: "string option"
  dest :: "string option"
  eta :: "string option"
  vessel_type :: "string option"
  flag_ctry :: "string option"

text \<open>Comparison of Dates: false as soon as one side is invalid.\<close>

definition date_lt :: "date \<Rightarrow> date \<Rightarrow> bool" where
  "date_lt a b = (case (a, b) of (Some x, Some y) \<Rightarrow> x < y | _ \<Rightarrow> False)"

definition date_le :: "date \<Rightarrow> date \<Rightarrow> bool" where
  "date_le a b = (case (a, b) of (Some x, Some y) \<Rightarrow> x \<le> y | _ \<Rightarrow> False)"

section \<open>TimeSyncController: the time-window registry\<close>

text \<open>The value stored per ship in \<^verbatim>\<open>TimeSyncController.ships\<close>. Both Dates are valid:
  \<^verbatim>\<open>initializeShips\<close> skips a ship whose start or end is \<^verbatim>\<open>NaN\<close> before it stores it.\<close>

record shipTimes =
  tsc_startTime :: msec
  tsc_endTime :: msec

text \<open>The controller. A JavaScript \<^verbatim>\<open>Map\<close> keeps insertion order and \<^verbatim>\<open>set\<close> on an
  existing key keeps the key's position: an association list under \<^const>\<open>AList.update\<close>.
  The field \<^verbatim>\<open>speed\<close> of the source is \<open>speed_mult\<close> here, and \<^verbatim>\<open>ships\<close> is
  \<open>tsc_ships\<close>, because points and the store have fields of the same names.\<close>

record timeSyncController =
  globalStartTime :: "date option"
  globalEndTime :: "date option"
  currentTime :: "date option"
  isPlaying :: bool
  speed_mult :: real
  baseTimeRatio :: real
  mode :: string
  selectedShipId :: "string option"
  tsc_ships :: "(string \<times> shipTimes) list"

definition tsc_constructor :: timeSyncController where
  "tsc_constructor =
     \<lparr>globalStartTime = None, globalEndTime = None, currentTime = None, isPlaying = False,
      speed_mult = 1, baseTimeRatio = 300, mode = ''multi'', selectedShipId = None,
      tsc_ships = []\<rparr>"

text \<open>\<^verbatim>\<open>TimeSyncController.parseTime\<close>: \<^verbatim>\<open>null\<close> for a falsy argument, the Date itself
  when it is a valid Date object, otherwise \<^verbatim>\<open>new Date(timeStr)\<close> when that is valid.
  The result, when not \<^verbatim>\<open>null\<close>, is a valid Date, so it is given by its time value.\<close>

definition tsc_parseTime :: "env \<Rightarrow> timeval \<Rightarrow> msec option" where
  "tsc_parseTime e timeStr =
     (case timeStr of
        TNull \<Rightarrow> None
      | TDate d \<Rightarrow> d
      | TStr s \<Rightarrow> if s = [] then None else newDate e s)"

text \<open>\<^verbatim>\<open>currentTime instanceof Date ? currentTime : this.parseTime(currentTime)\<close>: a Date
  object is taken as it is, also when invalid.\<close>

definition tsc_time :: "env \<Rightarrow> timeval \<Rightarrow> date option" where
  "tsc_time e v = (case v of TDate d \<Rightarrow> Some d | _ \<Rightarrow> map_option Some (tsc_parseTime e v))"

text \<open>The body of the loop of \<^verbatim>\<open>initializeShips\<close> for one entry of \<^verbatim>\<open>shipGroups\<close>. A
  group is \<open>None\<close> when it is falsy or its \<^verbatim>\<open>data\<close> is missing or not an array.\<close>

definition tsc_validPoints :: "env \<Rightarrow> point list \<Rightarrow> point list" where
  "tsc_validPoints e trajectory =
     filter (\<lambda>p. truthyT (postime p) \<and> tsc_parseTime e (postime p) \<noteq> None) trajectory"

definition tsc_times :: "env \<Rightarrow> point list \<Rightarrow> msec list" where
  "tsc_times e validPoints =
     concat (map (\<lambda>p. case tsc_parseTime e (postime p) of None \<Rightarrow> [] | Some t \<Rightarrow> [t])
                 validPoints)"

definition tsc_addEntry ::
  "env \<Rightarrow> (string \<times> shipTimes) list \<Rightarrow> string \<times> point list option \<Rightarrow> (string \<times> shipTimes) list"
where
  "tsc_addEntry e ships entry =
     (case entry of
        (mmsi, None) \<Rightarrow> ships
      | (mmsi, Some trajectory) \<Rightarrow>
          if trajectory = [] then ships
          else
            (case tsc_validPoints e trajectory of
               [] \<Rightarrow> ships
             | vp # vps \<Rightarrow>
                 (case tsc_times e (vp # vps) of
                    [] \<Rightarrow> ships
                  | t # ts \<Rightarrow>
                      let startTime = fold min ts t;
                          endTime = fold max ts t
                      in if startTime > endTime
                         then AList.update mmsi
                                \<lparr>tsc_startTime = endTime, tsc_endTime = startTime\<rparr> ships
                         else AList.update mmsi
                                \<lparr>tsc_startTime = startTime, tsc_endTime = endTime\<rparr> ships)))"

text \<open>\<^verbatim>\<open>initializeShips(shipGroups, globalTimeRange)\<close>. \<open>shipGroups\<close> is the list of
  \<^verbatim>\<open>Object.entries\<close>, or \<open>None\<close> when the argument is not an object; \<open>globalTimeRange\<close>
  gives the two strings \<^verbatim>\<open>start_time\<close> and \<^verbatim>\<open>end_time\<close>. The global range is only
  overwritten when a range is supplied or at least one ship was stored.\<close>

definition tsc_initializeShips ::
  "env \<Rightarrow> timeSyncController \<Rightarrow> (string \<times> point list option) list option \<Rightarrow>
   (string \<times> string) option \<Rightarrow> timeSyncController"
where
  "tsc_initializeShips e st shipGroups globalTimeRange =
     (case shipGroups of
        None \<Rightarrow> st\<lparr>tsc_ships := []\<rparr>
      | Some groups \<Rightarrow>
          let ships = fold (\<lambda>entry ships. tsc_addEntry e ships entry) groups [];
              st1 = st\<lparr>tsc_ships := ships\<rparr>;
              explicit = (case globalTimeRange of
                            None \<Rightarrow> None
                          | Some (start_time, end_time) \<Rightarrow>
                              if start_time \<noteq> [] \<and> end_time \<noteq> []
                              then Some (start_time, end_time) else None);
              st2 = (case explicit of
                       Some (start_time, end_time) \<Rightarrow>
                         st1\<lparr>globalStartTime := Some (newDate e start_time),
                             globalEndTime := Some (newDate e end_time)\<rparr>
                     | None \<Rightarrow>
                         (case map snd ships of
                            [] \<Rightarrow> st1
                          | w # ws \<Rightarrow>
                              st1\<lparr>globalStartTime :=
                                    Some (Some (fold min (map tsc_startTime ws) (tsc_startTime w))),
                                  globalEndTime :=
                                    Some (Some (fold max (map tsc_endTime ws) (tsc_endTime w)))\<rparr>))
          in (case globalStartTime st2 of
                None \<Rightarrow> st2
              | Some d \<Rightarrow> st2\<lparr>currentTime := Some d\<rparr>))"

text \<open>\<^verbatim>\<open>getActiveShipsAtTime(currentTime)\<close>: the ids of the ships whose window holds the
  time, in the order of the map.\<close>

definition getActiveShipsAtTime :: "env \<Rightarrow> timeSyncController \<Rightarrow> timeval \<Rightarrow> string list" where
  "getActiveShipsAtTime e st currentTime' =
     (case tsc_time e currentTime' of
        None \<Rightarrow> []
      | Some time \<Rightarrow>
          map fst
            (filter (\<lambda>(mmsi, shipData).
                       \<not> date_lt time (Some (tsc_startTime shipData)) \<and>
                       \<not> date_lt (Some (tsc_endTime shipData)) time)
                    (tsc_ships st)))"

text \<open>\<^verbatim>\<open>updateTime(newTime)\<close>: store the time, then replace it by the global start when it
  lies before it, else by the global end when it lies after it.\<close>

definition updateTime :: "env \<Rightarrow> timeSyncController \<Rightarrow> timeval \<Rightarrow> timeSyncController" where
  "updateTime e st newTime =
     (case tsc_time e newTime of
        None \<Rightarrow> st
      | Some time \<Rightarrow>
          (case globalStartTime st of
             Some gs \<Rightarrow>
               if date_lt time gs then st\<lparr>currentTime := Some gs\<rparr>
               else (case globalEndTime st of
                       Some ge \<Rightarrow>
                         if date_lt ge time then st\<lparr>currentTime := Some ge\<rparr>
                         else st\<lparr>currentTime := Some time\<rparr>
                     | None \<Rightarrow> st\<lparr>currentTime := Some time\<rparr>)
           | None \<Rightarrow>
               (case globalEndTime st of
                  Some ge \<Rightarrow>
                    if date_lt ge time then st\<lparr>currentTime := Some ge\<rparr>
                    else st\<lparr>currentTime := Some time\<rparr>
                | None \<Rightarrow> st\<lparr>currentTime := Some time\<rparr>)))"

section \<open>MultiShipManager: the trajectory store\<close>

subsection \<open>Strings and numbers of the runtime\<close>

text \<open>\<^verbatim>\<open>String.prototype.trim\<close> on a string of characters below \<open>256\<close>: the white space
  among them (space, tab, line feed, vertical tab, form feed, carriage return and the
  no-break space \<open>U+00A0\<close>) is stripped at both ends. The white space beyond \<open>U+00FF\<close> has
  no counterpart in these strings.\<close>

definition isSpace :: "char \<Rightarrow> bool" where
  "isSpace c = (c = CHR '' '' \<or> c = CHR 0x09 \<or> c = CHR 0x0A \<or> c = CHR 0x0B \<or>
                c = CHR 0x0C \<or> c = CHR 0x0D \<or> c = CHR 0xA0)"

definition trim :: "string \<Rightarrow> string" where
  "trim s = rev (dropWhile isSpace (rev (dropWhile isSpace s)))"

text \<open>\<^verbatim>\<open>parseInt(string)\<close> without a radix: leading white space and a sign are skipped,
  the prefix \<^verbatim>\<open>0x\<close> selects radix 16, and the longest prefix of digits is read; the
  result is \<^verbatim>\<open>NaN\<close> (\<open>None\<close>) when there is no digit. The integer is not rounded to a
  double here.\<close>

definition digitOf :: "nat \<Rightarrow> char \<Rightarrow> nat option" where
  "digitOf radix c =
     (let n = of_char c :: nat;
          v = (if 48 \<le> n \<and> n \<le> 57 then Some (n - 48)
               else if 97 \<le> n \<and> n \<le> 122 then Some (n - 87)
               else if 65 \<le> n \<and> n \<le> 90 then Some (n - 55)
               else None)
      in case v of None \<Rightarrow> None | Some d \<Rightarrow> if d < radix then Some d else None)"

definition digitsValue :: "nat \<Rightarrow> string \<Rightarrow> nat" where
  "digitsValue radix Z = fold (\<lambda>c n. n * radix + (case digitOf radix c of Some d \<Rightarrow> d | None \<Rightarrow> 0)) Z 0"

definition parseInt :: "string \<Rightarrow> int option" where
  "parseInt string =
     (let S = dropWhile isSpace string;
          (sign, S1) = (case S of
                          c # r \<Rightarrow> if c = CHR ''-'' then (- 1 :: int, r)
                                   else if c = CHR ''+'' then (1, r) else (1, S)
                        | [] \<Rightarrow> (1, S));
          (R, S2) = (if take 2 S1 = ''0x'' \<or> take 2 S1 = ''0X'' then (16 :: nat, drop 2 S1)
                     else (10, S1));
          Z = takeWhile (\<lambda>c. digitOf R c \<noteq> None) S2
      in if Z = [] then None else Some (sign * int (digitsValue R Z)))"

text \<open>\<^verbatim>\<open>Math.atan2(y, x)\<close> on real numbers (signed zeros do not exist here).\<close>

definition atan2 :: "real \<Rightarrow> real \<Rightarrow> real" where
  "atan2 y x =
     (if 0 < x then arctan (y / x)
      else if x < 0 then (if 0 \<le> y then arctan (y / x) + pi else arctan (y / x) - pi)
      else if 0 < y then pi / 2
      else if y < 0 then - pi / 2
      else 0)"

text \<open>The remainder operator \<^verbatim>\<open>%\<close> on numbers: the quotient is truncated towards zero.\<close>

definition jsRem :: "real \<Rightarrow> real \<Rightarrow> real" where
  "jsRem a n = a - n * of_int (if 0 \<le> a / n then \<lfloor>a / n\<rfloor> else \<lceil>a / n\<rceil>)"

text \<open>The integer nearest to a real number, the even one when two are equally near.\<close>

definition roundEven :: "real \<Rightarrow> int" where
  "roundEven y =
     (let n = \<lfloor>y\<rfloor>; d = y - of_int n
      in if d < 1 / 2 then n else if 1 / 2 < d then n + 1 else if even n then n else n + 1)"

text \<open>The binary exponent of a double of magnitude \<open>a\<close>: the \<open>k\<close> with
  \<open>2\<^sup>k \<le> a < 2\<^sup>k\<^sup>+\<^sup>1\<close>, searched downwards from \<open>0\<close> when \<open>a < 1\<close> and upwards otherwise, and
  kept between \<open>-1022\<close> and \<open>1023\<close>.\<close>

fun normDown :: "nat \<Rightarrow> int \<Rightarrow> real \<Rightarrow> int" where
  "normDown 0 k a = k"
| "normDown (Suc n) k a = (if a < 2 powi k then normDown n (k - 1) a else k)"

fun normUp :: "nat \<Rightarrow> int \<Rightarrow> real \<Rightarrow> int" where
  "normUp 0 k a = k"
| "normUp (Suc n) k a = (if 2 powi (k + 1) \<le> a then normUp n (k + 1) a else k)"

definition exponentOf :: "real \<Rightarrow> int" where
  "exponentOf a = (if a < 1 then normDown 1022 0 a else normUp 1023 0 a)"

text \<open>The double nearest to a real number, which is what an arithmetic operation on numbers
  and the conversion of a decimal string return: doubles with the binary exponent \<open>k\<close> are
  the multiples of \<open>2\<^sup>k\<^sup>-\<^sup>5\<^sup>2\<close> (53 significant bits; below \<open>2\<^sup>-\<^sup>1\<^sup>0\<^sup>2\<^sup>2\<close> the spacing stays
  \<open>2\<^sup>-\<^sup>1\<^sup>0\<^sup>7\<^sup>4\<close>), and of two doubles equally near the one with the even significand is
  taken. A result beyond the largest double is \<^verbatim>\<open>Infinity\<close> in the source; this is not
  modelled, the exponent stays at \<open>1023\<close> there.\<close>

definition roundDouble :: "real \<Rightarrow> real" where
  "roundDouble x =
     (let q = 2 powi (exponentOf \<bar>x\<bar> - 52) in of_int (roundEven (x / q)) * q)"

text \<open>The number that the string \<^verbatim>\<open>x.toFixed(6)\<close> denotes: the multiple of \<open>10\<^sup>-\<^sup>6\<close> nearest
  to \<open>x\<close>, the one larger in magnitude when two are equally near.
  \<^verbatim>\<open>parseFloat(x.toFixed(6))\<close> is the double nearest to it.\<close>

definition toFixed6 :: "real \<Rightarrow> real" where
  "toFixed6 x =
     (if x < 0 then - (of_int \<lfloor>- x * 1000000 + 1 / 2\<rfloor> / 1000000)
      else of_int \<lfloor>x * 1000000 + 1 / 2\<rfloor> / 1000000)"

text \<open>The operator \<^verbatim>\<open>||\<close> at the types it is used at.\<close>

definition orNum :: "real option \<Rightarrow> real \<Rightarrow> real" where
  "orNum a d = (case a of None \<Rightarrow> d | Some x \<Rightarrow> if x \<noteq> 0 then x else d)"

definition orNumNull :: "real option \<Rightarrow> real option \<Rightarrow> real option" where
  "orNumNull a b = (if truthyN a then a else b)"

definition orStrNull :: "string option \<Rightarrow> string option \<Rightarrow> string option" where
  "orStrNull a b = (if truthyS a then a else b)"

definition orTime :: "timeval \<Rightarrow> timeval \<Rightarrow> timeval" where
  "orTime a b = (if truthyT a then a else b)"

subsection \<open>The store\<close>

text \<open>A position as \<^verbatim>\<open>getShipPositionAtTime\<close> returns it. Its coordinates are numbers,
  but they can be \<^verbatim>\<open>NaN\<close> (\<open>None\<close>): the interpolation yields \<^verbatim>\<open>NaN\<close> when the query
  time is an Invalid Date.\<close>

record position =
  pos_lng :: "real option"
  pos_lat :: "real option"
  pos_lon :: "real option"
  hdg :: real
  cog :: real
  pos_timestamp :: timeval
  pos_speed :: real
  pos_rot :: real
  pos_draught :: "real option"
  pos_status :: "string option"
  pos_dest :: "string option"
  pos_eta :: "string option"
  pos_vessel_type :: "string option"
  pos_flag_ctry :: "string option"

text \<open>The record stored per ship. \<^verbatim>\<open>startTime\<close> and \<^verbatim>\<open>endTime\<close> are \<^verbatim>\<open>null\<close>
  (\<open>None\<close>) or a valid Date; the source compares them only behind a test that they are
  not \<^verbatim>\<open>null\<close>. The field \<^verbatim>\<open>dest\<close> is \<open>ship_dest\<close> here.\<close>

record shipData =
  trajectory :: "point list"
  startTime :: "msec option"
  endTime :: "msec option"
  vesselType :: string
  flagCtry :: string
  color :: string
  ship_dest :: string
  iconSize :: int

text \<open>The manager: the map of ships. The colour cache and the palette are behind
  \<^const>\<open>getShipColor\<close>.\<close>

record multiShipManager =
  ships :: "(string \<times> shipData) list"

text \<open>\<^verbatim>\<open>MultiShipManager.parseTime\<close>: as the controller's, but a string that trims to
  nothing or to \<^verbatim>\<open>null\<close>, \<^verbatim>\<open>undefined\<close>, \<^verbatim>\<open>NaN\<close> is refused, and so is a parsed
  date whose year is outside 1900..2100.\<close>

definition parseTime :: "env \<Rightarrow> timeval \<Rightarrow> msec option" where
  "parseTime e timeStr =
     (case timeStr of
        TNull \<Rightarrow> None
      | TDate d \<Rightarrow> d
      | TStr s \<Rightarrow>
          if s = [] then None
          else
            let trimmed = trim s
            in if trimmed = [] \<or> trimmed = ''null'' \<or> trimmed = ''undefined'' \<or>
                  trimmed = ''NaN''
               then None
               else (case newDate e s of
                       None \<Rightarrow> None
                     | Some t \<Rightarrow>
                         let year = getFullYear e t
                         in if year < 1900 \<or> year > 2100 then None else Some t))"

definition msm_time :: "env \<Rightarrow> timeval \<Rightarrow> date option" where
  "msm_time e v = (case v of TDate d \<Rightarrow> Some d | _ \<Rightarrow> map_option Some (parseTime e v))"

text \<open>\<^verbatim>\<open>calculateIconSize(vesselType)\<close>.\<close>

definition calculateIconSize :: "string \<Rightarrow> int" where
  "calculateIconSize vesselType' =
     (let typeNum = (case parseInt vesselType' of
                       None \<Rightarrow> 50000
                     | Some n \<Rightarrow> if n \<noteq> 0 then n else 50000)
      in if typeNum \<ge> 70000 then 36
         else if typeNum \<ge> 50000 then 30
         else 24)"

text \<open>The comparator of the sort in \<^verbatim>\<open>addShip\<close>, as the relation "may stay in front":
  the comparator's value for \<open>(a, b)\<close> is at most \<open>0\<close>. Points without a parseable time
  come after all others and are equal among themselves.\<close>

definition timeLE :: "msec option \<Rightarrow> msec option \<Rightarrow> bool" where
  "timeLE timeA timeB =
     (case (timeA, timeB) of
        (None, None) \<Rightarrow> True
      | (None, Some b) \<Rightarrow> False
      | (Some a, None) \<Rightarrow> True
      | (Some a, Some b) \<Rightarrow> a - b \<le> 0)"

text \<open>\<^verbatim>\<open>Array.prototype.sort\<close> is stable, and the comparator is consistent, so the result
  is the one of a stable insertion sort.\<close>

fun insertByTime :: "env \<Rightarrow> point \<Rightarrow> point list \<Rightarrow> point list" where
  "insertByTime e a [] = [a]"
| "insertByTime e a (b # bs) =
     (if timeLE (parseTime e (postime a)) (parseTime e (postime b)) then a # b # bs
      else b # insertByTime e a bs)"

definition sortByTime :: "env \<Rightarrow> point list \<Rightarrow> point list" where
  "sortByTime e ps = foldr (insertByTime e) ps []"

definition cleanFlag :: "string \<Rightarrow> string" where
  "cleanFlag f =
     (if f = ''nan'' \<or> f = ''null'' \<or> f = ''undefined'' \<or> f = ''NaN'' then [] else f)"

definition strOrEmpty :: "string option \<Rightarrow> string" where
  "strOrEmpty v = (case v of None \<Rightarrow> [] | Some s \<Rightarrow> if s \<noteq> [] then trim s else [])"

text \<open>The second half of \<^verbatim>\<open>addShip\<close>: the record stored for a ship, computed from its
  sorted, non-empty trajectory.\<close>

definition shipDataOf :: "env \<Rightarrow> point list \<Rightarrow> shipData" where
  "shipDataOf e sortedTrajectory =
     (let firstPoint = sortedTrajectory ! 0;
          lastPoint = sortedTrajectory ! (length sortedTrajectory - 1);
          startTime' = (if truthyT (postime firstPoint)
                        then parseTime e (postime firstPoint) else None);
          endTime' = (if truthyT (postime lastPoint)
                      then parseTime e (postime lastPoint) else None);
          vesselType' = strOrEmpty (vessel_type firstPoint);
          flagCtry' = cleanFlag (strOrEmpty (flag_ctry firstPoint));
          dest' = strOrEmpty (dest firstPoint)
      in \<lparr>trajectory = sortedTrajectory, startTime = startTime', endTime = endTime',
          vesselType = vesselType', flagCtry = flagCtry',
          color = getShipColor e flagCtry', ship_dest = dest',
          iconSize = calculateIconSize vesselType'\<rparr>)"

text \<open>\<^verbatim>\<open>addShip(mmsi, shipData)\<close>. The data is \<open>None\<close> when the object is falsy or its
  \<^verbatim>\<open>data\<close> is missing or not an array.\<close>

definition addShip ::
  "env \<Rightarrow> multiShipManager \<Rightarrow> string \<Rightarrow> point list option \<Rightarrow> multiShipManager"
where
  "addShip e m mmsi shipData' =
     (if mmsi = [] then m
      else
        (case shipData' of
           None \<Rightarrow> m
         | Some traj \<Rightarrow>
             if traj = [] then m
             else
               let hasTimeStamps = list_ex (\<lambda>p. truthyT (postime p)) traj;
                   sortedTrajectory = (if hasTimeStamps then sortByTime e traj else traj)
               in m\<lparr>ships := AList.update mmsi (shipDataOf e sortedTrajectory) (ships m)\<rparr>))"

text \<open>\<^verbatim>\<open>MultiShipManager.initializeShips(shipGroups)\<close>: the map is cleared and every
  entry with a non-empty array is added (the colour table it builds first is behind
  \<^const>\<open>getShipColor\<close>).\<close>

definition initializeShips ::
  "env \<Rightarrow> (string \<times> point list option) list option \<Rightarrow> multiShipManager"
where
  "initializeShips e shipGroups =
     (case shipGroups of
        None \<Rightarrow> \<lparr>ships = []\<rparr>
      | Some groups \<Rightarrow>
          fold (\<lambda>(mmsi, shipData') m.
                  case shipData' of
                    None \<Rightarrow> m
                  | Some traj \<Rightarrow> if traj = [] then m else addShip e m mmsi shipData')
               groups \<lparr>ships = []\<rparr>)"

definition getShip :: "multiShipManager \<Rightarrow> string \<Rightarrow> shipData option" where
  "getShip m mmsi = map_of (ships m) mmsi"

subsection \<open>Positions\<close>

text \<open>\<^verbatim>\<open>point.lon || point.lng || 0\<close> and \<^verbatim>\<open>point.lat || 0\<close>.\<close>

definition lngOf :: "point \<Rightarrow> real" where
  "lngOf p = orNum (lon p) (orNum (lng p) 0)"

definition latOf :: "point \<Rightarrow> real" where
  "latOf p = orNum (lat p) 0"

text \<open>\<^verbatim>\<open>calculateDirection(point1, point2)\<close>, for two points that exist. On real numbers
  the bearing is always a finite number, so the final \<^verbatim>\<open>isNaN\<close>/\<^verbatim>\<open>isFinite\<close> guard of
  the source never fires.\<close>

definition calculateDirection :: "point \<Rightarrow> point \<Rightarrow> real" where
  "calculateDirection point1 point2 =
     (let lng1 = lngOf point1; lat1 = latOf point1;
          lng2 = lngOf point2; lat2 = latOf point2
      in if lng1 = lng2 \<and> lat1 = lat2 then 0
         else
           let lat1Rad = lat1 * pi / 180;
               lat2Rad = lat2 * pi / 180;
               deltaLng = (lng2 - lng1) * pi / 180;
               y = sin deltaLng * cos lat2Rad;
               x = cos lat1Rad * sin lat2Rad - sin lat1Rad * cos lat2Rad * cos deltaLng;
               bearing = atan2 y x * 180 / pi
           in jsRem (bearing + 360) 360)"

text \<open>\<^verbatim>\<open>formatPosition(point)\<close>: heading and course are \<open>0\<close> here; the caller is meant to
  overwrite them.\<close>

definition formatPosition :: "point \<Rightarrow> position" where
  "formatPosition p =
     \<lparr>pos_lng = Some (lngOf p), pos_lat = Some (latOf p), pos_lon = Some (lngOf p),
      hdg = 0, cog = 0,
      pos_timestamp = orTime (postime p) (timestamp p),
      pos_speed = orNum (speed p) 0, pos_rot = orNum (rot p) 0,
      pos_draught = orNumNull (draught p) None,
      pos_status = orStrNull (status p) None,
      pos_dest = orStrNull (dest p) None,
      pos_eta = orStrNull (eta p) None,
      pos_vessel_type = orStrNull (vessel_type p) None,
      pos_flag_ctry = orStrNull (flag_ctry p) None\<rparr>"

text \<open>\<^verbatim>\<open>position.hdg = d; position.cog = d\<close>.\<close>

definition setDirection :: "real \<Rightarrow> position \<Rightarrow> position" where
  "setDirection d pos = pos\<lparr>hdg := d, cog := d\<rparr>"

text \<open>\<^verbatim>\<open>interpolatePosition(point1, point2, progress)\<close>, for two points that exist. The
  progress is a number or \<^verbatim>\<open>NaN\<close> (\<open>None\<close>); \<^verbatim>\<open>NaN\<close> goes through
  \<^verbatim>\<open>Math.max\<close>, \<^verbatim>\<open>Math.min\<close>, the arithmetic and \<^verbatim>\<open>toFixed\<close>. The subtraction, the
  multiplication and the addition of \<^verbatim>\<open>p1 + (p2 - p1) * progress\<close> each return a double.\<close>

definition interpolatePosition :: "point \<Rightarrow> point \<Rightarrow> real option \<Rightarrow> position" where
  "interpolatePosition point1 point2 progress =
     (let progress' = map_option (\<lambda>p. max 0 (min 1 p)) progress;
          lng' = map_option
                   (\<lambda>p. roundDouble (lngOf point1 +
                           roundDouble (roundDouble (lngOf point2 - lngOf point1) * p)))
                   progress';
          lat' = map_option
                   (\<lambda>p. roundDouble (latOf point1 +
                           roundDouble (roundDouble (latOf point2 - latOf point1) * p)))
                   progress';
          heading = calculateDirection point1 point2
      in \<lparr>pos_lng = map_option (\<lambda>x. roundDouble (toFixed6 x)) lng',
          pos_lat = map_option (\<lambda>x. roundDouble (toFixed6 x)) lat',
          pos_lon = map_option (\<lambda>x. roundDouble (toFixed6 x)) lng',
          hdg = heading, cog = heading,
          pos_timestamp = orTime (postime point1) (timestamp point1),
          pos_speed = orNum (speed point1) (orNum (speed point2) 0),
          pos_rot = orNum (rot point1) 0,
          pos_draught = orNumNull (draught point1) (orNumNull (draught point2) None),
          pos_status = orStrNull (status point1) (orStrNull (status point2) None),
          pos_dest = orStrNull (dest point1) (orStrNull (dest point2) None),
          pos_eta = orStrNull (eta point1) (orStrNull (eta point2) None),
          pos_vessel_type =
            orStrNull (vessel_type point1) (orStrNull (vessel_type point2) None),
          pos_flag_ctry = orStrNull (flag_ctry point1) (orStrNull (flag_ctry point2) None)\<rparr>)"

text \<open>The binary search of \<^verbatim>\<open>getShipPositionAtTime\<close>: the loop
  \<^verbatim>\<open>while (left < right - 1)\<close>, returning the final \<open>(left, right)\<close>.\<close>

function binarySearch :: "env \<Rightarrow> point list \<Rightarrow> date \<Rightarrow> nat \<Rightarrow> nat \<Rightarrow> nat \<times> nat" where
  "binarySearch e traj time left right =
     (if left + 1 < right then
        let mid = (left + right) div 2
        in (case parseTime e (postime (traj ! mid)) of
              None \<Rightarrow> binarySearch e traj time mid right
            | Some midTime \<Rightarrow>
                if date_le (Some midTime) time then binarySearch e traj time mid right
                else binarySearch e traj time left mid)
      else (left, right))"
  by pat_completeness auto
termination
  by (relation "measure (\<lambda>(e, traj, time, left, right). right - left)") auto

text \<open>The part of \<^verbatim>\<open>getShipPositionAtTime\<close> after the binary search, for the pair of
  indices it found. The two differences of time values and their quotient are doubles.\<close>

definition positionBetween :: "env \<Rightarrow> point list \<Rightarrow> date \<Rightarrow> nat \<Rightarrow> nat \<Rightarrow> position" where
  "positionBetween e traj time left right =
     (let point1 = traj ! left;
          point2 = traj ! right;
          time1 = parseTime e (postime point1);
          time2 = parseTime e (postime point2)
      in case time1 of
           None \<Rightarrow>
             (case time2 of
                None \<Rightarrow> setDirection (calculateDirection point1 point2) (formatPosition point1)
              | Some t2 \<Rightarrow>
                  if right < length traj - 1
                  then setDirection (calculateDirection point2 (traj ! (right + 1)))
                         (formatPosition point2)
                  else setDirection (calculateDirection point1 point2) (formatPosition point2))
         | Some t1 \<Rightarrow>
             (case time2 of
                None \<Rightarrow> setDirection (calculateDirection point1 point2) (formatPosition point1)
              | Some t2 \<Rightarrow>
                  if time = Some t1 then
                    (if right < length traj - 1
                     then setDirection (calculateDirection point1 (traj ! (right + 1)))
                            (formatPosition point1)
                     else if left > 0
                     then setDirection (calculateDirection (traj ! (left - 1)) point1)
                            (formatPosition point1)
                     else setDirection (calculateDirection point1 point2)
                            (formatPosition point1))
                  else if time = Some t2 then
                    (if right < length traj - 1
                     then setDirection (calculateDirection point2 (traj ! (right + 1)))
                            (formatPosition point2)
                     else setDirection (calculateDirection point1 point2)
                            (formatPosition point2))
                  else
                    let timeDiff = roundDouble (real_of_int (t2 - t1));
                        elapsed = map_option (\<lambda>t. roundDouble (real_of_int (t - t1))) time;
                        progress = (if timeDiff > 0
                                    then map_option (\<lambda>el. roundDouble (el / timeDiff)) elapsed
                                    else Some 0);
                        clampedProgress = map_option (\<lambda>p. max 0 (min 1 p)) progress
                    in interpolatePosition point1 point2 clampedProgress))"

text \<open>\<^verbatim>\<open>getShipPositionAtTime(mmsi, currentTime)\<close>.\<close>

definition getShipPositionAtTime ::
  "env \<Rightarrow> multiShipManager \<Rightarrow> string \<Rightarrow> timeval \<Rightarrow> position option"
where
  "getShipPositionAtTime e m mmsi currentTime' =
     (case map_of (ships m) mmsi of
        None \<Rightarrow> None
      | Some shipData' \<Rightarrow>
          let traj = trajectory shipData'
          in if traj = [] then None
             else
               (case msm_time e currentTime' of
                  None \<Rightarrow>
                    if length traj > 1
                    then Some (setDirection (calculateDirection (traj ! 0) (traj ! 1))
                                 (formatPosition (traj ! 0)))
                    else Some (formatPosition (traj ! 0))
                | Some time \<Rightarrow>
                    if startTime shipData' \<noteq> None \<and> date_lt time (startTime shipData')
                    then Some (formatPosition (traj ! 0))
                    else if endTime shipData' \<noteq> None \<and> date_lt (endTime shipData') time
                    then Some (formatPosition (traj ! (length traj - 1)))
                    else if length traj = 1 then Some (formatPosition (traj ! 0))
                    else
                      let right = length traj - 1;
                          firstTime = parseTime e (postime (traj ! 0));
                          lastTime = parseTime e (postime (traj ! right))
                      in if firstTime \<noteq> None \<and> date_lt time firstTime
                         then Some (setDirection (calculateDirection (traj ! 0) (traj ! 1))
                                      (formatPosition (traj ! 0)))
                         else if lastTime \<noteq> None \<and> date_lt lastTime time
                         then Some (setDirection
                                      (calculateDirection (traj ! (right - 1)) (traj ! right))
                                      (formatPosition (traj ! right)))
                         else
                           (case binarySearch e traj time 0 right of
                              (left, right') \<Rightarrow>
                                Some (positionBetween e traj time left right'))))"

text \<open>\<^verbatim>\<open>getAllVisibleShipsAtTime(currentTime, mode, selectedShipId)\<close>.\<close>

definition getAllVisibleShipsAtTime ::
  "env \<Rightarrow> multiShipManager \<Rightarrow> timeval \<Rightarrow> string \<Rightarrow> string option \<Rightarrow> string list"
where
  "getAllVisibleShipsAtTime e m currentTime' mode' selectedShipId' =
     (if mode' = ''single'' \<and> truthyS selectedShipId' then
        (case selectedShipId' of
           None \<Rightarrow> []
         | Some sel \<Rightarrow>
             (case map_of (ships m) sel of
                None \<Rightarrow> []
              | Some shipData' \<Rightarrow>
                  (case msm_time e currentTime' of
                     None \<Rightarrow> [sel]
                   | Some time \<Rightarrow>
                       if startTime shipData' \<noteq> None \<and> endTime shipData' \<noteq> None
                       then (if date_le (startTime shipData') time \<and>
                                date_le time (endTime shipData')
                             then [sel] else [])
                       else [sel])))
      else
        (let time = msm_time e currentTime'
         in map fst
              (filter (\<lambda>(mmsi, shipData').
                         startTime shipData' = None \<or> endTime shipData' = None \<or>
                         time = None \<or>
                         (case time of
                            None \<Rightarrow> False
                          | Some t \<Rightarrow> date_le (startTime shipData') t \<and>
                                      date_le t (endTime shipData')))
                      (ships m))))"

section \<open>The snapshot of one tick\<close>

text \<open>An entry of the snapshot: the position spread into a new object, with the ship's
  size, colour and id added and its type, flag and destination overwritten.\<close>

record marker = position +
  m_iconSize :: int
  m_color :: string
  m_mmsi :: string

text \<open>The body of the loop of \<^verbatim>\<open>updateAllShipsPositions\<close> for one active id: the id
  is skipped when it is empty, when there is no position, when both \<^verbatim>\<open>lng\<close> and
  \<^verbatim>\<open>lon\<close> of the position are falsy or its \<^verbatim>\<open>lat\<close> is falsy, and when the store does
  not know the ship.\<close>

definition snapshotStep ::
  "env \<Rightarrow> multiShipManager \<Rightarrow> timeval \<Rightarrow> string \<Rightarrow> (string \<rightharpoonup> marker) \<Rightarrow>
   (string \<rightharpoonup> marker)"
where
  "snapshotStep e msm currentTime' mmsi shipPositions =
     (if mmsi = [] then shipPositions
      else
        (case getShipPositionAtTime e msm mmsi currentTime' of
           None \<Rightarrow> shipPositions
         | Some position \<Rightarrow>
             if (\<not> truthyN (pos_lng position) \<and> \<not> truthyN (pos_lon position)) \<or>
                \<not> truthyN (pos_lat position)
             then shipPositions
             else
               (case getShip msm mmsi of
                  None \<Rightarrow> shipPositions
                | Some shipInfo \<Rightarrow>
                    shipPositions(mmsi \<mapsto>
                      position.extend
                        (position\<lparr>pos_vessel_type := Some (vesselType shipInfo),
                                  pos_flag_ctry := Some (flagCtry shipInfo),
                                  pos_dest := Some (ship_dest shipInfo)\<rparr>)
                        \<lparr>m_iconSize = (if iconSize shipInfo \<noteq> 0
                                       then iconSize shipInfo else 24),
                         m_color = (if color shipInfo \<noteq> []
                                    then color shipInfo else ''#2196f3''),
                         m_mmsi = mmsi\<rparr>))))"

text \<open>\<^verbatim>\<open>updateAllShipsPositions(currentTime)\<close> with both services and the map present:
  the object handed to \<^verbatim>\<open>updateAllMarkers\<close>.\<close>

definition updateAllShipsPositions ::
  "env \<Rightarrow> timeSyncController \<Rightarrow> multiShipManager \<Rightarrow> timeval \<Rightarrow> (string \<rightharpoonup> marker)"
where
  "updateAllShipsPositions e tsc msm currentTime' =
     (let activeShips = getActiveShipsAtTime e tsc currentTime'
      in fold (snapshotStep e msm currentTime') activeShips Map.empty)"

section \<open>Notions used in the statements\<close>

text \<open>\<^verbatim>\<open>String(n)\<close> for a non-negative integer \<open>n\<close>: its decimal digits.\<close>

fun numberToString :: "nat \<Rightarrow> string" where
  "numberToString n =
     (if n < 10 then [''0123456789'' ! n]
      else numberToString (n div 10) @ [''0123456789'' ! (n mod 10)])"

text \<open>The characters \<^verbatim>\<open>0\<close> to \<^verbatim>\<open>9\<close>.\<close>

definition isDecimalDigit :: "char \<Rightarrow> bool" where
  "isDecimalDigit c = (48 \<le> (of_char c :: nat) \<and> (of_char c :: nat) \<le> 57)"

text \<open>The point at the fraction \<open>f\<close> of the straight segment from point \<open>i\<close> of a
  trajectory to the next one, by coordinate.\<close>

definition segLng :: "point list \<Rightarrow> nat \<Rightarrow> real \<Rightarrow> real" where
  "segLng traj i f = lngOf (traj ! i) + (lngOf (traj ! Suc i) - lngOf (traj ! i)) * f"

definition segLat :: "point list \<Rightarrow> nat \<Rightarrow> real \<Rightarrow> real" where
  "segLat traj i f = latOf (traj ! i) + (latOf (traj ! Suc i) - latOf (traj ! i)) * f"

text \<open>A position has numbers as coordinates, each of them within \<open>10\<^sup>-\<^sup>6\<close> of the coordinate
  of one point of a segment of the trajectory.\<close>

definition nearSegment :: "point list \<Rightarrow> position \<Rightarrow> bool" where
  "nearSegment traj pos =
     (\<exists>i f x y. Suc i < length traj \<and> 0 \<le> f \<and> f \<le> 1 \<and>
        pos_lng pos = Some x \<and> pos_lat pos = Some y \<and>
        \<bar>x - segLng traj i f\<bar> \<le> 1 / 1000000 \<and> \<bar>y - segLat traj i f\<bar> \<le> 1 / 1000000)"

text \<open>What \<^verbatim>\<open>addShip\<close> establishes for a stored ship: the trajectory is not empty and
  is in the order of the comparator, and the start and end times are the parsed times of
  its first and last point.\<close>

definition timeOf :: "env \<Rightarrow> point \<Rightarrow> msec option" where
  "timeOf e p = parseTime e (postime p)"

definition loadedShip :: "env \<Rightarrow> shipData \<Rightarrow> bool" where
  "loadedShip e sd =
     (trajectory sd \<noteq> [] \<and>
      sorted_wrt (\<lambda>a b. timeLE (timeOf e a) (timeOf e b)) (trajectory sd) \<and>
      startTime sd = timeOf e (trajectory sd ! 0) \<and>
      endTime sd = timeOf e (trajectory sd ! (length (trajectory sd) - 1)))"

section \<open>A concrete runtime and sample data\<close>

text \<open>\<^verbatim>\<open>getFullYear\<close> in a time zone without offset: the civil year of the day that holds
  the time value, by the usual computation over the 400-year cycle of 146097 days.\<close>

definition utcFullYear :: "msec \<Rightarrow> int" where
  "utcFullYear t =
     (let z = t div 86400000 + 719468;
          era = z div 146097;
          doe = z - era * 146097;
          yoe = (doe - doe div 1460 + doe div 36524 - doe div 146096) div 365;
          doy = doe - (365 * yoe + yoe div 4 - yoe div 100);
          mp = (5 * doy + 2) div 153
      in yoe + era * 400 + (if mp < 10 then 0 else 1))"

text \<open>\<^verbatim>\<open>new Date(s)\<close> on a few ISO strings with the \<^verbatim>\<open>Z\<close> suffix, whose time values
  the language standard fixes; every other string is left invalid here.\<close>

definition sampleNewDate :: "string \<Rightarrow> msec option" where
  "sampleNewDate s =
     map_of
       [(''1800-01-01T00:00:00.000Z'', - 5364662400000),
        (''2023-12-31T23:00:00.000Z'', 1704063600000),
        (''2024-01-01T00:00:00.000Z'', 1704067200000),
        (''2024-01-01T00:05:00.000Z'', 1704067500000),
        (''2024-01-01T00:10:00.000Z'', 1704067800000),
        (''2024-01-01T01:10:00.000Z'', 1704071400000),
        (''2150-06-15T12:00:00.000Z'', 5694580800000)] s"

definition sampleEnv :: env where
  "sampleEnv =
     \<lparr>newDate = sampleNewDate, getFullYear = utcFullYear,
      getShipColor = (\<lambda>c. ''hsl(200, 70%, 50%)'')\<rparr>"

text \<open>A point that has only a time, a longitude and a latitude.\<close>

definition samplePoint :: "timeval \<Rightarrow> real option \<Rightarrow> real option \<Rightarrow> point" where
  "samplePoint t lo la =
     \<lparr>postime = t, timestamp = TNull, lon = lo, lng = None, lat = la, speed = None,
      rot = None, draught = None, status = None, dest = None, eta = None,
      vessel_type = None, flag_ctry = None\<rparr>"

text \<open>Two ships: the first has two timestamped points given out of order, the second a
  timestamped point on the equator followed by a point without a time.\<close>

definition sampleGroups :: "(string \<times> point list option) list" where
  "sampleGroups =
     [(''412000001'',
       Some [samplePoint (TStr ''2024-01-01T00:10:00.000Z'') (Some 121) (Some 31),
             samplePoint (TStr ''2024-01-01T00:00:00.000Z'') (Some 120) (Some 30)]),
      (''412000002'',
       Some [samplePoint (TStr ''2024-01-01T00:05:00.000Z'') (Some 10) (Some 0),
             samplePoint TNull (Some 11) (Some 1)])]"

definition sampleController :: timeSyncController where
  "sampleController = tsc_initializeShips sampleEnv tsc_constructor (Some sampleGroups) None"

definition sampleManager :: multiShipManager where
  "sampleManager = initializeShips sampleEnv (Some sampleGroups)"

text \<open>A ship that moves a fraction of a millionth of a degree in ten minutes, from the
  longitude \<open>2\<^sup>-\<^sup>2\<^sup>1\<close> (about \<open>0.00000048\<close>) to \<open>2\<^sup>-\<^sup>2\<^sup>3\<close> (about \<open>0.00000012\<close>), standing
  still (speed \<open>0\<close>) at its first point.\<close>

definition roundingP1 :: point where
  "roundingP1 =
     (samplePoint (TStr ''2024-01-01T00:00:00.000Z'') (Some (1 / 2 ^ 21)) (Some 30))
       \<lparr>speed := Some 0\<rparr>"

definition roundingP2 :: point where
  "roundingP2 =
     (samplePoint (TStr ''2024-01-01T00:10:00.000Z'') (Some (1 / 2 ^ 23)) (Some 31))
       \<lparr>speed := Some 5\<rparr>"

definition roundingManager :: multiShipManager where
  "roundingManager =
     initializeShips sampleEnv (Some [(''412000005'', Some [roundingP1, roundingP2])])"

text \<open>A ship that sails one degree east and one degree north in 2000 seconds; the times of
  its points are Date objects. One millisecond after its first point the interpolated
  coordinates \<open>120.0000005\<close> and \<open>30.0000005\<close> lie halfway between two numbers of six
  decimals.\<close>

definition tieP1 :: point where
  "tieP1 = samplePoint (TDate (Some 1704067200000)) (Some 120) (Some 30)"

definition tieP2 :: point where
  "tieP2 = samplePoint (TDate (Some 1704069200000)) (Some 121) (Some 31)"

definition tieManager :: multiShipManager where
  "tieManager = initializeShips sampleEnv (Some [(''412000007'', Some [tieP1, tieP2])])"

text \<open>A ship that sails due east along the equator.\<close>

definition headingP1 :: point where
  "headingP1 = samplePoint (TStr ''2024-01-01T00:00:00.000Z'') (Some 0) (Some 0)"

definition headingP2 :: point where
  "headingP2 = samplePoint (TStr ''2024-01-01T00:10:00.000Z'') (Some 1) (Some 0)"

definition headingManager :: multiShipManager where
  "headingManager =
     initializeShips sampleEnv (Some [(''412000006'', Some [headingP1, headingP2])])"

section \<open>Properties of the registry\<close>

lemma set_AList_update:
  "(k', v') \<in> set (AList.update k v al) \<Longrightarrow> (k', v') = (k, v) \<or> (k', v') \<in> set al"
  by (induction al) (auto split: if_splits)

lemma tsc_addEntry_distinct:
  "distinct (map fst al) \<Longrightarrow> distinct (map fst (tsc_addEntry e al entry))"
  by (auto simp: tsc_addEntry_def Let_def distinct_update
      split: prod.splits option.splits list.splits)

lemma tsc_fold_distinct:
  "distinct (map fst acc) \<Longrightarrow>
   distinct (map fst (fold (\<lambda>entry ships. tsc_addEntry e ships entry) groups acc))"
  by (induction groups arbitrary: acc) (simp_all add: tsc_addEntry_distinct)

lemma tsc_ships_initializeShips:
  "tsc_ships (tsc_initializeShips e st shipGroups gtr) =
     (case shipGroups of None \<Rightarrow> []
      | Some groups \<Rightarrow> fold (\<lambda>entry ships. tsc_addEntry e ships entry) groups [])"
  by (simp add: tsc_initializeShips_def Let_def split: option.splits list.splits prod.splits)

lemma tsc_initializeShips_distinct:
  "distinct (map fst (tsc_ships (tsc_initializeShips e st shipGroups gtr)))"
  by (simp add: tsc_ships_initializeShips tsc_fold_distinct split: option.splits)

lemma getActiveShipsAtTime_set:
  assumes "tsc_time e v = Some (Some t)"
  shows "set (getActiveShipsAtTime e st v) =
         {m. \<exists>w. (m, w) \<in> set (tsc_ships st) \<and> tsc_startTime w \<le> t \<and> t \<le> tsc_endTime w}"
  using assms by (force simp: getActiveShipsAtTime_def date_lt_def not_less)

lemma getActiveShipsAtTime_mem:
  assumes "distinct (map fst (tsc_ships st))"
      and "(mmsi, w) \<in> set (tsc_ships st)"
      and "tsc_time e v = Some (Some t)"
  shows "mmsi \<in> set (getActiveShipsAtTime e st v) \<longleftrightarrow>
         tsc_startTime w \<le> t \<and> t \<le> tsc_endTime w"
proof -
  have uniq: "w' = w" if "(mmsi, w') \<in> set (tsc_ships st)" for w'
    using eq_key_imp_eq_value [OF assms(1) that assms(2)] .
  have "mmsi \<in> set (getActiveShipsAtTime e st v) \<longleftrightarrow>
        (\<exists>w'. (mmsi, w') \<in> set (tsc_ships st) \<and> tsc_startTime w' \<le> t \<and> t \<le> tsc_endTime w')"
    by (simp add: getActiveShipsAtTime_set [OF assms(3)])
  also have "\<dots> \<longleftrightarrow> tsc_startTime w \<le> t \<and> t \<le> tsc_endTime w"
    using assms(2) uniq by blast
  finally show ?thesis .
qed

lemma tsc_initializeShips_computed_range:
  "globalStartTime (tsc_initializeShips e st (Some groups) None) =
     (case fold (\<lambda>entry ships. tsc_addEntry e ships entry) groups [] of
        [] \<Rightarrow> globalStartTime st
      | w # ws \<Rightarrow> Some (Some (fold min (map tsc_startTime (map snd ws)) (tsc_startTime (snd w)))))"
  "globalEndTime (tsc_initializeShips e st (Some groups) None) =
     (case fold (\<lambda>entry ships. tsc_addEntry e ships entry) groups [] of
        [] \<Rightarrow> globalEndTime st
      | w # ws \<Rightarrow> Some (Some (fold max (map tsc_endTime (map snd ws)) (tsc_endTime (snd w)))))"
  by (simp_all add: tsc_initializeShips_def Let_def split: option.splits list.splits)

lemma fold_min_le: "fold min xs (a :: int) \<le> a"
proof (induction xs arbitrary: a)
  case Nil
  then show ?case by simp
next
  case (Cons x xs)
  have "fold min xs (min x a) \<le> min x a" by (rule Cons.IH)
  then show ?case by simp
qed

lemma le_fold_max: "(a :: int) \<le> fold max xs a"
proof (induction xs arbitrary: a)
  case Nil
  then show ?case by simp
next
  case (Cons x xs)
  have "max x a \<le> fold max xs (max x a)" by (rule Cons.IH)
  then show ?case by simp
qed

lemma fold_min_le_fold_max: "\<not> fold min ts (t :: int) > fold max ts t"
  using fold_min_le [of ts t] le_fold_max [of t ts] by simp

lemma tsc_addEntry_cases:
  "tsc_addEntry e al entry = al \<or>
   (\<exists>t ts. tsc_addEntry e al entry =
      AList.update (fst entry) \<lparr>tsc_startTime = fold min ts t, tsc_endTime = fold max ts t\<rparr> al)"
proof (cases entry)
  case (Pair mmsi g)
  show ?thesis
  proof (cases g)
    case None
    with Pair show ?thesis by (simp add: tsc_addEntry_def)
  next
    case (Some traj)
    show ?thesis
    proof (cases "tsc_validPoints e traj")
      case Nil
      with Pair Some show ?thesis by (simp add: tsc_addEntry_def)
    next
      case (Cons vp vps)
      show ?thesis
      proof (cases "tsc_times e (vp # vps)")
        case Nil
        with Pair Some Cons show ?thesis by (simp add: tsc_addEntry_def)
      next
        case (Cons t ts)
        with Pair Some \<open>tsc_validPoints e traj = vp # vps\<close> show ?thesis
          by (cases "traj = []") (auto simp: tsc_addEntry_def Let_def fold_min_le_fold_max)
      qed
    qed
  qed
qed

lemma tsc_addEntry_ordered:
  assumes "\<forall>(k, w) \<in> set al. tsc_startTime w \<le> tsc_endTime w"
  shows "\<forall>(k, w) \<in> set (tsc_addEntry e al entry). tsc_startTime w \<le> tsc_endTime w"
proof -
  from tsc_addEntry_cases [of e al entry] show ?thesis
  proof
    assume "tsc_addEntry e al entry = al"
    with assms show ?thesis by simp
  next
    assume "\<exists>t ts. tsc_addEntry e al entry =
      AList.update (fst entry) \<lparr>tsc_startTime = fold min ts t, tsc_endTime = fold max ts t\<rparr> al"
    then obtain t ts where u: "tsc_addEntry e al entry =
      AList.update (fst entry) \<lparr>tsc_startTime = fold min ts t, tsc_endTime = fold max ts t\<rparr> al"
      by blast
    have "fold min ts t \<le> fold max ts t"
      using fold_min_le [of ts t] le_fold_max [of t ts] by simp
    then show ?thesis
      unfolding u using assms by (auto dest: set_AList_update)
  qed
qed

lemma tsc_fold_ordered:
  "\<forall>(k, w) \<in> set acc. tsc_startTime w \<le> tsc_endTime w \<Longrightarrow>
   \<forall>(k, w) \<in> set (fold (\<lambda>entry ships. tsc_addEntry e ships entry) groups acc).
      tsc_startTime w \<le> tsc_endTime w"
proof (induction groups arbitrary: acc)
  case Nil
  then show ?case by simp
next
  case (Cons g groups)
  from Cons.IH [OF tsc_addEntry_ordered [OF Cons.prems, of e g]] show ?case by simp
qed

lemma tsc_window_ordered:
  assumes "(mmsi, w) \<in> set (tsc_ships (tsc_initializeShips e st shipGroups gtr))"
  shows "tsc_startTime w \<le> tsc_endTime w"
proof (cases shipGroups)
  case None
  with assms show ?thesis by (simp add: tsc_ships_initializeShips)
next
  case (Some groups)
  have "\<forall>(k, w) \<in> set ([] :: (string \<times> shipTimes) list). tsc_startTime w \<le> tsc_endTime w"
    by simp
  from tsc_fold_ordered [OF this, of e groups] assms Some show ?thesis
    by (auto simp: tsc_ships_initializeShips)
qed

lemma tsc_computed_range_ordered:
  assumes "tsc_ships (tsc_initializeShips e st (Some groups) None) \<noteq> []"
  shows "\<exists>lo hi. globalStartTime (tsc_initializeShips e st (Some groups) None) = Some (Some lo) \<and>
                 globalEndTime (tsc_initializeShips e st (Some groups) None) = Some (Some hi) \<and>
                 lo \<le> hi"
proof -
  let ?al = "fold (\<lambda>entry ships. tsc_addEntry e ships entry) groups []"
  from assms obtain kw ws where al: "?al = kw # ws"
    by (cases ?al) (simp_all add: tsc_ships_initializeShips)
  have "kw \<in> set (tsc_ships (tsc_initializeShips e st (Some groups) None))"
    by (simp add: tsc_ships_initializeShips al)
  then have o: "tsc_startTime (snd kw) \<le> tsc_endTime (snd kw)"
    using tsc_window_ordered [of "fst kw" "snd kw" e st "Some groups" None] by simp
  have "fold min (map tsc_startTime (map snd ws)) (tsc_startTime (snd kw)) \<le>
        fold max (map tsc_endTime (map snd ws)) (tsc_endTime (snd kw))"
    using fold_min_le [of "map tsc_startTime (map snd ws)" "tsc_startTime (snd kw)"]
      le_fold_max [of "tsc_endTime (snd kw)" "map tsc_endTime (map snd ws)"] o
    by linarith
  then show ?thesis
    by (simp add: tsc_initializeShips_computed_range al)
qed

lemma sample_fold:
  "fold (\<lambda>entry ships. tsc_addEntry sampleEnv ships entry) sampleGroups [] =
     [(''412000001'', \<lparr>tsc_startTime = 1704067200000, tsc_endTime = 1704067800000\<rparr>),
      (''412000002'', \<lparr>tsc_startTime = 1704067500000, tsc_endTime = 1704067500000\<rparr>)]"
  by (simp add: sampleGroups_def tsc_addEntry_def tsc_validPoints_def tsc_times_def
      tsc_parseTime_def truthyT_def samplePoint_def sampleEnv_def sampleNewDate_def)

lemma sample_tsc_ships:
  "tsc_ships sampleController =
     [(''412000001'', \<lparr>tsc_startTime = 1704067200000, tsc_endTime = 1704067800000\<rparr>),
      (''412000002'', \<lparr>tsc_startTime = 1704067500000, tsc_endTime = 1704067500000\<rparr>)]"
  by (simp add: sampleController_def tsc_ships_initializeShips sample_fold)

lemma sample_tsc_time:
  "tsc_time sampleEnv (TStr ''2024-01-01T00:05:00.000Z'') = Some (Some 1704067500000)"
  "tsc_time sampleEnv (TStr ''2024-01-01T01:10:00.000Z'') = Some (Some 1704071400000)"
  "tsc_time sampleEnv (TStr ''2023-12-31T23:00:00.000Z'') = Some (Some 1704063600000)"
  by (simp_all add: tsc_time_def tsc_parseTime_def sampleEnv_def sampleNewDate_def)

text \<open>
  \<^bold>\<open>C1.\<close> For every ship that \<^verbatim>\<open>initializeShips\<close> has loaded into the registry and
  every time that is a valid Date or parses to one, \<^verbatim>\<open>getActiveShipsAtTime\<close> lists the
  ship's id if and only if the time lies in the ship's window: start \<open>\<le>\<close> t \<open>\<le>\<close> end.
  Before the start and after the end the ship is left out. (The window is the one the
  load computed; by \<open>tsc_window_ordered\<close> its start is not after its end.)
\<close>

theorem C1_active_iff_within_window:
  assumes "(mmsi, w) \<in> set (tsc_ships (tsc_initializeShips e st0 shipGroups gtr))"
      and "tsc_time e v = Some (Some t)"
  shows "mmsi \<in> set (getActiveShipsAtTime e (tsc_initializeShips e st0 shipGroups gtr) v) \<longleftrightarrow>
         tsc_startTime w \<le> t \<and> t \<le> tsc_endTime w"
  using getActiveShipsAtTime_mem [OF tsc_initializeShips_distinct assms] .

theorem C1_active_iff_within_window_witness:
  "(''412000001'', \<lparr>tsc_startTime = 1704067200000, tsc_endTime = 1704067800000\<rparr>)
     \<in> set (tsc_ships (tsc_initializeShips sampleEnv tsc_constructor (Some sampleGroups) None)) \<and>
   tsc_time sampleEnv (TStr ''2024-01-01T00:05:00.000Z'') = Some (Some 1704067500000) \<and>
   ''412000001'' \<in> set (getActiveShipsAtTime sampleEnv
       (tsc_initializeShips sampleEnv tsc_constructor (Some sampleGroups) None)
       (TStr ''2024-01-01T00:05:00.000Z'')) \<and>
   tsc_time sampleEnv (TStr ''2024-01-01T01:10:00.000Z'') = Some (Some 1704071400000) \<and>
   ''412000001'' \<notin> set (getActiveShipsAtTime sampleEnv
       (tsc_initializeShips sampleEnv tsc_constructor (Some sampleGroups) None)
       (TStr ''2024-01-01T01:10:00.000Z'')) \<and>
   tsc_time sampleEnv (TStr ''2023-12-31T23:00:00.000Z'') = Some (Some 1704063600000) \<and>
   ''412000001'' \<notin> set (getActiveShipsAtTime sampleEnv
       (tsc_initializeShips sampleEnv tsc_constructor (Some sampleGroups) None)
       (TStr ''2023-12-31T23:00:00.000Z''))"
proof -
  let ?w = "\<lparr>tsc_startTime = 1704067200000, tsc_endTime = 1704067800000\<rparr>"
  let ?st = "tsc_initializeShips sampleEnv tsc_constructor (Some sampleGroups) None"
  have m: "(''412000001'', ?w) \<in> set (tsc_ships ?st)"
    using sample_tsc_ships by (simp add: sampleController_def)
  from C1_active_iff_within_window [OF m sample_tsc_time(1)]
       C1_active_iff_within_window [OF m sample_tsc_time(2)]
       C1_active_iff_within_window [OF m sample_tsc_time(3)] m sample_tsc_time
  show ?thesis by simp
qed

lemma updateTime_valid:
  "tsc_time e v = Some (Some t) \<Longrightarrow> globalStartTime st = Some (Some lo) \<Longrightarrow>
   globalEndTime st = Some (Some hi) \<Longrightarrow>
   currentTime (updateTime e st v) =
     Some (Some (if t < lo then lo else if hi < t then hi else t))"
  by (simp add: updateTime_def date_lt_def)

lemma updateTime_norange:
  "tsc_time e v = Some (Some t) \<Longrightarrow> globalStartTime st = None \<Longrightarrow>
   globalEndTime st = None \<Longrightarrow>
   currentTime (updateTime e st v) = Some (Some t)"
  by (simp add: updateTime_def)

lemma sample_global_range:
  "globalStartTime sampleController = Some (Some 1704067200000)"
  "globalEndTime sampleController = Some (Some 1704067800000)"
  by (simp_all add: sampleController_def tsc_initializeShips_computed_range sample_fold)

text \<open>
  \<^bold>\<open>C5.\<close> For a time \<open>t\<close> that is a valid Date or parses to one, \<^verbatim>\<open>updateTime\<close> sets
  \<^verbatim>\<open>currentTime\<close> to \<open>t\<close> clamped into the global range when the range exists (both
  ends valid Dates, start not after end); one hour past the global end gives the global
  end. Without a global range \<open>t\<close> is stored as it is.
\<close>

theorem C5_updateTime_clamps:
  assumes "tsc_time e v = Some (Some t)"
  shows "(globalStartTime st = Some (Some lo) \<and> globalEndTime st = Some (Some hi) \<and> lo \<le> hi
            \<longrightarrow> currentTime (updateTime e st v) = Some (Some (max lo (min hi t))) \<and>
                currentTime (updateTime e st (TDate (Some (hi + 3600000)))) = Some (Some hi)) \<and>
         (globalStartTime st = None \<and> globalEndTime st = None
            \<longrightarrow> currentTime (updateTime e st v) = Some (Some t))"
proof (intro conjI impI)
  assume r: "globalStartTime st = Some (Some lo) \<and> globalEndTime st = Some (Some hi) \<and> lo \<le> hi"
  then show "currentTime (updateTime e st v) = Some (Some (max lo (min hi t)))"
    using updateTime_valid [OF assms, of st lo hi] by (simp add: max_def min_def)
  have "tsc_time e (TDate (Some (hi + 3600000))) = Some (Some (hi + 3600000))"
    by (simp add: tsc_time_def)
  from updateTime_valid [OF this, of st lo hi] r
  show "currentTime (updateTime e st (TDate (Some (hi + 3600000)))) = Some (Some hi)"
    by simp
next
  assume "globalStartTime st = None \<and> globalEndTime st = None"
  then show "currentTime (updateTime e st v) = Some (Some t)"
    using updateTime_norange [OF assms, of st] by simp
qed

theorem C5_updateTime_clamps_witness:
  "tsc_time sampleEnv (TStr ''2024-01-01T01:10:00.000Z'') = Some (Some 1704071400000) \<and>
   globalStartTime sampleController = Some (Some 1704067200000) \<and>
   globalEndTime sampleController = Some (Some 1704067800000) \<and>
   currentTime (updateTime sampleEnv sampleController (TStr ''2024-01-01T01:10:00.000Z'')) =
     Some (Some 1704067800000) \<and>
   currentTime (updateTime sampleEnv sampleController (TDate (Some (1704067800000 + 3600000)))) =
     Some (Some 1704067800000) \<and>
   globalStartTime tsc_constructor = None \<and> globalEndTime tsc_constructor = None \<and>
   currentTime (updateTime sampleEnv tsc_constructor (TStr ''2024-01-01T01:10:00.000Z'')) =
     Some (Some 1704071400000)"
proof -
  have n: "globalStartTime tsc_constructor = None" "globalEndTime tsc_constructor = None"
    by (simp_all add: tsc_constructor_def)
  from C5_updateTime_clamps [OF sample_tsc_time(2), of sampleController 1704067200000
         1704067800000]
       C5_updateTime_clamps [OF sample_tsc_time(2), of tsc_constructor 0 0]
       sample_global_range n sample_tsc_time(2)
  show ?thesis by simp
qed

section \<open>Properties of the store\<close>

subsection \<open>Bearing\<close>

lemma atan2_bounds: "- pi < atan2 y x \<and> atan2 y x \<le> pi"
proof -
  have a: "- (pi / 2) < arctan (y / x)" "arctan (y / x) < pi / 2"
    using arctan_lbound arctan_ubound by auto
  have p: "0 < pi" by simp
  consider "0 < x" | "x < 0" "0 \<le> y" | "x < 0" "y < 0" | "x = 0" by linarith
  then show ?thesis
  proof cases
    case 1
    then show ?thesis using a p by (simp add: atan2_def)
  next
    case 2
    then have "y / x \<le> 0" by (simp add: divide_nonneg_neg)
    then have "arctan (y / x) \<le> 0" using arctan_le_zero_iff by blast
    then show ?thesis using 2 a p by (simp add: atan2_def)
  next
    case 3
    then have "0 < y / x" by (simp add: divide_neg_neg)
    then have "0 < arctan (y / x)" using zero_less_arctan_iff by blast
    then show ?thesis using 3 a p by (simp add: atan2_def)
  next
    case 4
    then show ?thesis using p
      by (cases "0 < y"; cases "y < 0"; simp add: atan2_def; linarith)
  qed
qed

lemma jsRem_360_bounds:
  assumes "0 \<le> a"
  shows "0 \<le> jsRem a 360 \<and> jsRem a 360 < 360"
proof -
  have q: "0 \<le> a / 360" using assms by simp
  have 1: "of_int \<lfloor>a / 360\<rfloor> \<le> a / 360" by (rule of_int_floor_le)
  have 2: "a / 360 < of_int \<lfloor>a / 360\<rfloor> + 1" by linarith
  from q have "jsRem a 360 = a - 360 * of_int \<lfloor>a / 360\<rfloor>" by (simp add: jsRem_def)
  with 1 2 show ?thesis by (simp add: field_simps)
qed

lemma calculateDirection_bounds:
  "0 \<le> calculateDirection a b \<and> calculateDirection a b < 360"
proof (cases "lngOf a = lngOf b \<and> latOf a = latOf b")
  case True
  then show ?thesis by (simp add: calculateDirection_def)
next
  case False
  define y where "y = sin ((lngOf b - lngOf a) * pi / 180) * cos (latOf b * pi / 180)"
  define x where "x = cos (latOf a * pi / 180) * sin (latOf b * pi / 180) -
     sin (latOf a * pi / 180) * cos (latOf b * pi / 180) * cos ((lngOf b - lngOf a) * pi / 180)"
  have cd: "calculateDirection a b = jsRem (atan2 y x * 180 / pi + 360) 360"
    unfolding calculateDirection_def Let_def x_def y_def by (rule if_not_P [OF False])
  have "- pi < atan2 y x" using atan2_bounds by blast
  then have "- pi * (180 / pi) < atan2 y x * (180 / pi)"
    by (intro mult_strict_right_mono) simp_all
  then have "0 \<le> atan2 y x * 180 / pi + 360" by simp
  from jsRem_360_bounds [OF this] cd show ?thesis by simp
qed

lemma calculateDirection_same:
  "lngOf a = lngOf b \<Longrightarrow> latOf a = latOf b \<Longrightarrow> calculateDirection a b = 0"
  by (simp add: calculateDirection_def)

lemma samplePoint_coords:
  "lngOf (samplePoint t (Some x) la) = x" "latOf (samplePoint t lo (Some y)) = y"
  by (simp_all add: lngOf_def latOf_def orNum_def samplePoint_def)

lemma sin_deg1_pos: "0 < sin (pi / 180)"
  by (rule sin_gt_zero) (simp_all add: pi_gt_zero)

lemma calculateDirection_north:
  "calculateDirection (samplePoint t (Some 0) (Some 0)) (samplePoint t' (Some 0) (Some 1)) = 0"
  using sin_deg1_pos
  by (simp add: calculateDirection_def samplePoint_coords Let_def atan2_def jsRem_def)

lemma calculateDirection_east:
  "calculateDirection (samplePoint t (Some 0) (Some 0)) (samplePoint t' (Some 1) (Some 0)) = 90"
  using sin_deg1_pos
  by (simp add: calculateDirection_def samplePoint_coords Let_def atan2_def jsRem_def)

text \<open>
  \<^bold>\<open>C6.\<close> The bearing that \<^verbatim>\<open>calculateDirection\<close> computes for two points lies in
  \<open>[0, 360)\<close>; it is \<open>0\<close> when the two points have the same coordinates; from
  (lat 0, lon 0) it is \<open>0\<close> towards (lat 1, lon 0) and \<open>90\<close> towards (lat 0, lon 1).
  Numbers are real numbers here.
\<close>

theorem C6_bearing_range_and_cases:
  "0 \<le> calculateDirection a b \<and> calculateDirection a b < 360 \<and>
   (lon a = lon b \<and> lng a = lng b \<and> lat a = lat b \<longrightarrow> calculateDirection a b = 0) \<and>
   calculateDirection (samplePoint TNull (Some 0) (Some 0))
                      (samplePoint TNull (Some 0) (Some 1)) = 0 \<and>
   calculateDirection (samplePoint TNull (Some 0) (Some 0))
                      (samplePoint TNull (Some 1) (Some 0)) = 90"
  using calculateDirection_bounds [of a b] calculateDirection_north calculateDirection_east
    calculateDirection_same [of a b]
  by (simp add: lngOf_def latOf_def)

theorem C6_bearing_range_and_cases_witness:
  "calculateDirection (samplePoint TNull (Some 0) (Some 0))
                      (samplePoint TNull (Some 0) (Some 0)) = 0 \<and>
   calculateDirection (samplePoint (TStr ''2024-01-01T00:00:00.000Z'') (Some 120) (Some 30))
                      (samplePoint TNull (Some 120) (Some 30)) = 0"
  using C6_bearing_range_and_cases
          [of "samplePoint TNull (Some 0) (Some 0)" "samplePoint TNull (Some 0) (Some 0)"]
        C6_bearing_range_and_cases
          [of "samplePoint (TStr ''2024-01-01T00:00:00.000Z'') (Some 120) (Some 30)"
              "samplePoint TNull (Some 120) (Some 30)"]
  by (simp add: samplePoint_def)

subsection \<open>Icon size\<close>

declare numberToString.simps [simp del]

lemma below_ten: "d < 10 \<Longrightarrow> d \<in> {0, 1, 2, 3, 4, 5, 6, 7, 8, 9 :: nat}"
  by auto

lemma of_char_decimal: "d < 10 \<Longrightarrow> (of_char (''0123456789'' ! d) :: nat) = 48 + d"
  by (drule below_ten) (auto simp del: One_nat_def)

lemma isDecimalDigit_char_of: "d < 10 \<Longrightarrow> isDecimalDigit (''0123456789'' ! d)"
  by (simp add: isDecimalDigit_def of_char_decimal)

lemma digitOf_decimal: "d < 10 \<Longrightarrow> digitOf 10 (''0123456789'' ! d) = Some d"
  by (simp add: digitOf_def Let_def of_char_decimal)

lemma isDecimalDigit_digitOf: "isDecimalDigit c \<Longrightarrow> digitOf 10 c \<noteq> None"
  by (auto simp: isDecimalDigit_def digitOf_def Let_def)

lemma isDecimalDigit_not_other:
  "isDecimalDigit c \<Longrightarrow>
     \<not> isSpace c \<and> c \<noteq> CHR ''-'' \<and> c \<noteq> CHR ''+'' \<and> c \<noteq> CHR ''x'' \<and> c \<noteq> CHR ''X''"
  by (auto simp: isDecimalDigit_def isSpace_def)

lemma numberToString_digits: "\<forall>c \<in> set (numberToString n). isDecimalDigit c"
proof (induction n rule: numberToString.induct)
  case (1 n)
  show ?case
  proof (cases "n < 10")
    case True
    then show ?thesis
      by (simp add: numberToString.simps [of n] isDecimalDigit_char_of)
  next
    case False
    have "n mod 10 < 10" by simp
    then have "isDecimalDigit (''0123456789'' ! (n mod 10))" by (rule isDecimalDigit_char_of)
    with False 1 show ?thesis by (simp add: numberToString.simps [of n])
  qed
qed

lemma numberToString_nonempty: "numberToString n \<noteq> []"
  by (simp add: numberToString.simps [of n])

lemma digitsValue_snoc:
  "digitsValue r (Z @ [c]) =
     digitsValue r Z * r + (case digitOf r c of Some d \<Rightarrow> d | None \<Rightarrow> 0)"
  by (simp add: digitsValue_def)

lemma digitsValue_numberToString: "digitsValue 10 (numberToString n) = n"
proof (induction n rule: numberToString.induct)
  case (1 n)
  show ?case
  proof (cases "n < 10")
    case True
    then show ?thesis
      by (simp add: numberToString.simps [of n] digitsValue_def digitOf_decimal)
  next
    case False
    have m: "n mod 10 < 10" by simp
    from False 1 have "digitsValue 10 (numberToString (n div 10)) = n div 10" by simp
    with False show ?thesis
      by (simp add: numberToString.simps [of n] digitsValue_snoc digitOf_decimal [OF m])
  qed
qed

lemma numberToString_second:
  "take 2 (numberToString n) \<noteq> ''0x'' \<and> take 2 (numberToString n) \<noteq> ''0X''"
proof (cases "numberToString n")
  case Nil
  then show ?thesis by simp
next
  case (Cons a as)
  show ?thesis
  proof (cases as)
    case Nil
    with Cons show ?thesis by simp
  next
    case (Cons b bs)
    with \<open>numberToString n = a # as\<close> have "b \<in> set (numberToString n)" by simp
    then have "isDecimalDigit b" using numberToString_digits by blast
    then have "b \<noteq> CHR ''x'' \<and> b \<noteq> CHR ''X''" using isDecimalDigit_not_other by blast
    with Cons \<open>numberToString n = a # as\<close> show ?thesis by simp
  qed
qed

lemma parseInt_plain_decimal:
  assumes "dropWhile isSpace z = z" and "z \<noteq> []"
      and "hd z \<noteq> CHR ''-''" and "hd z \<noteq> CHR ''+''"
      and "take 2 z \<noteq> ''0x''" and "take 2 z \<noteq> ''0X''"
      and "takeWhile (\<lambda>c. digitOf 10 c \<noteq> None) z = z"
  shows "parseInt z = Some (int (digitsValue 10 z))"
proof -
  have sign: "(case z of
                 c # r \<Rightarrow> if c = CHR ''-'' then (- 1 :: int, r)
                          else if c = CHR ''+'' then (1, r) else (1, z)
               | [] \<Rightarrow> (1, z)) = (1, z)"
    using assms(2,3,4) by (cases z) auto
  have rad: "(if take 2 z = ''0x'' \<or> take 2 z = ''0X'' then (16 :: nat, drop 2 z)
              else (10, z)) = (10, z)"
    using assms(5,6) by (rule_tac if_not_P) blast
  show ?thesis
    unfolding parseInt_def Let_def assms(1) sign prod.case rad assms(7)
    using assms(2) by simp
qed

lemma parseInt_numberToString: "parseInt (numberToString n) = Some (int n)"
proof -
  obtain a as where s: "numberToString n = a # as"
    using numberToString_nonempty [of n] by (cases "numberToString n") auto
  then have "a \<in> set (numberToString n)" by simp
  then have d: "isDecimalDigit a" using numberToString_digits by blast
  have h: "hd (numberToString n) = a" using s by simp
  have sp: "dropWhile isSpace (numberToString n) = numberToString n"
    using s d isDecimalDigit_not_other by simp
  have sg: "hd (numberToString n) \<noteq> CHR ''-''" "hd (numberToString n) \<noteq> CHR ''+''"
    unfolding h using d isDecimalDigit_not_other by blast+
  have all: "takeWhile (\<lambda>c. digitOf 10 c \<noteq> None) (numberToString n) = numberToString n"
    using numberToString_digits isDecimalDigit_digitOf
    by (simp add: takeWhile_eq_all_conv)
  have "parseInt (numberToString n) = Some (int (digitsValue 10 (numberToString n)))"
    using sp numberToString_nonempty sg numberToString_second [THEN conjunct1]
      numberToString_second [THEN conjunct2] all
    by (rule parseInt_plain_decimal)
  then show ?thesis by (simp add: digitsValue_numberToString)
qed

lemma calculateIconSize_numberToString:
  "calculateIconSize (numberToString n) =
     (if n \<ge> 70000 then 36 else if n \<ge> 50000 \<or> n = 0 then 30 else 24)"
  by (simp add: calculateIconSize_def parseInt_numberToString)

lemma calculateIconSize_NaN: "parseInt s = None \<Longrightarrow> calculateIconSize s = 30"
  by (simp add: calculateIconSize_def)

lemma parseInt_empty: "parseInt [] = None"
  by (simp add: parseInt_def)

lemma calculateIconSize_samples:
  "calculateIconSize ''0'' = 30" "calculateIconSize [] = 30" "calculateIconSize ''abc'' = 30"
  by code_simp+

lemma parseInt_samples: "parseInt ''abc'' = None" "parseInt [] = None"
  by code_simp+

lemma numberToString_samples:
  "numberToString 70000 = ''70000''" "numberToString 50000 = ''50000''"
  "numberToString 30000 = ''30000''" "numberToString 0 = ''0''"
  by (simp_all add: numberToString.simps)

text \<open>
  \<^bold>\<open>C7\<close> as the claim states it fails: the codes \<^verbatim>\<open>0\<close>, a missing code (the empty
  string that \<^verbatim>\<open>addShip\<close> passes) and a non-numeric code do not give the small size 24.
\<close>

theorem C7_zero_missing_nonnumeric_counterexample:
  "calculateIconSize ''0'' \<noteq> 24 \<and> calculateIconSize [] \<noteq> 24 \<and>
   calculateIconSize ''abc'' \<noteq> 24"
  by (simp add: calculateIconSize_samples)

text \<open>
  \<^bold>\<open>C7\<close>, amended. For a code that is the decimal string of a number \<open>n\<close>: the size is
  36 when \<open>n \<ge> 70000\<close>, 30 when \<open>50000 \<le> n < 70000\<close>, and 24 when \<open>0 < n < 50000\<close>. The
  code \<open>0\<close> and every code that \<^verbatim>\<open>parseInt\<close> cannot read (a missing or non-numeric code)
  take the default 50000 and give the medium size 30.
\<close>

theorem C7_icon_size_by_code:
  "calculateIconSize (numberToString n) =
     (if n \<ge> 70000 then 36 else if n \<ge> 50000 \<or> n = 0 then 30 else 24) \<and>
   (parseInt s = None \<longrightarrow> calculateIconSize s = 30)"
  using calculateIconSize_numberToString [of n] calculateIconSize_NaN [of s] by simp

theorem C7_icon_size_by_code_witness:
  "numberToString 70000 = ''70000'' \<and> calculateIconSize ''70000'' = 36 \<and>
   numberToString 50000 = ''50000'' \<and> calculateIconSize ''50000'' = 30 \<and>
   numberToString 30000 = ''30000'' \<and> calculateIconSize ''30000'' = 24 \<and>
   numberToString 0 = ''0'' \<and> calculateIconSize ''0'' = 30 \<and>
   parseInt ''abc'' = None \<and> calculateIconSize ''abc'' = 30"
  using C7_icon_size_by_code [of 70000 "''abc''"] C7_icon_size_by_code [of 50000 "''abc''"]
    C7_icon_size_by_code [of 30000 "''abc''"] C7_icon_size_by_code [of 0 "''abc''"]
    parseInt_samples(1)
  by (simp add: numberToString_samples)

subsection \<open>The two timestamp parsers\<close>

lemma parseTime_year_out_of_range:
  assumes "newDate e s = Some t"
      and "getFullYear e t < 1900 \<or> getFullYear e t > 2100"
  shows "parseTime e (TStr s) = None"
  using assms by (simp add: parseTime_def Let_def)

lemma tsc_parseTime_string:
  "s \<noteq> [] \<Longrightarrow> tsc_parseTime e (TStr s) = newDate e s"
  by (simp add: tsc_parseTime_def)

lemma utcFullYear_samples:
  "utcFullYear (- 5364662400000) = 1800" "utcFullYear 5694580800000 = 2150"
  "utcFullYear 1704067200000 = 2024" "utcFullYear 1704067500000 = 2024"
  "utcFullYear 1704067800000 = 2024"
  by code_simp+

lemma sample_year_1800:
  "newDate sampleEnv ''1800-01-01T00:00:00.000Z'' = Some (- 5364662400000)"
  "getFullYear sampleEnv (- 5364662400000) = 1800"
  "newDate sampleEnv ''2150-06-15T12:00:00.000Z'' = Some 5694580800000"
  "getFullYear sampleEnv 5694580800000 = 2150"
  by (simp_all add: sampleEnv_def sampleNewDate_def utcFullYear_samples)

text \<open>
  \<^bold>\<open>C9.\<close> For a string that the runtime parses to a valid date whose calendar year is
  before 1900 or after 2100, the store's \<^verbatim>\<open>parseTime\<close> returns \<^verbatim>\<open>null\<close> while the
  registry's \<^verbatim>\<open>parseTime\<close> returns the date; such a string exists (the first instant of
  the year 1800), so the two components classify the same point differently.
\<close>

theorem C9_parsers_disagree_outside_1900_2100:
  "(s \<noteq> [] \<and> newDate e s = Some t \<and> (getFullYear e t < 1900 \<or> getFullYear e t > 2100)
      \<longrightarrow> parseTime e (TStr s) = None \<and> tsc_parseTime e (TStr s) = Some t) \<and>
   tsc_parseTime sampleEnv (TStr ''1800-01-01T00:00:00.000Z'') = Some (- 5364662400000) \<and>
   parseTime sampleEnv (TStr ''1800-01-01T00:00:00.000Z'') = None"
proof (intro conjI impI)
  assume h: "s \<noteq> [] \<and> newDate e s = Some t \<and>
             (getFullYear e t < 1900 \<or> getFullYear e t > 2100)"
  then show "parseTime e (TStr s) = None"
    using parseTime_year_out_of_range [of e s t] by blast
  from h show "tsc_parseTime e (TStr s) = Some t"
    by (simp add: tsc_parseTime_string)
next
  show "tsc_parseTime sampleEnv (TStr ''1800-01-01T00:00:00.000Z'') = Some (- 5364662400000)"
    by (simp add: tsc_parseTime_string sample_year_1800)
  show "parseTime sampleEnv (TStr ''1800-01-01T00:00:00.000Z'') = None"
    using parseTime_year_out_of_range [OF sample_year_1800(1)]
    by (simp add: sample_year_1800)
qed

theorem C9_parsers_disagree_outside_1900_2100_witness:
  "newDate sampleEnv ''2150-06-15T12:00:00.000Z'' = Some 5694580800000 \<and>
   getFullYear sampleEnv 5694580800000 = 2150 \<and>
   parseTime sampleEnv (TStr ''2150-06-15T12:00:00.000Z'') = None \<and>
   tsc_parseTime sampleEnv (TStr ''2150-06-15T12:00:00.000Z'') = Some 5694580800000"
  using C9_parsers_disagree_outside_1900_2100
          [of "''2150-06-15T12:00:00.000Z''" sampleEnv 5694580800000]
  by (simp add: sample_year_1800)

lemma trim_id:
  assumes "s \<noteq> []" and "\<not> isSpace (hd s)" and "\<not> isSpace (last s)"
  shows "trim s = s"
proof -
  have 1: "dropWhile isSpace s = s" using assms(1,2) by (cases s) simp_all
  have "rev s \<noteq> []" "\<not> isSpace (hd (rev s))" using assms(1,3) by (simp_all add: hd_rev)
  then have 2: "dropWhile isSpace (rev s) = rev s" by (cases "rev s") simp_all
  show ?thesis by (simp add: trim_def 1 2)
qed

lemma sample_trim:
  "trim ''2024-01-01T00:00:00.000Z'' = ''2024-01-01T00:00:00.000Z''"
  "trim ''2024-01-01T00:05:00.000Z'' = ''2024-01-01T00:05:00.000Z''"
  "trim ''2024-01-01T00:10:00.000Z'' = ''2024-01-01T00:10:00.000Z''"
  by (rule trim_id; simp add: isSpace_def)+

lemma sample_newDate:
  "newDate sampleEnv ''2024-01-01T00:00:00.000Z'' = Some 1704067200000"
  "newDate sampleEnv ''2024-01-01T00:05:00.000Z'' = Some 1704067500000"
  "newDate sampleEnv ''2024-01-01T00:10:00.000Z'' = Some 1704067800000"
  by (simp_all add: sampleEnv_def sampleNewDate_def)

lemma sample_years:
  "getFullYear sampleEnv 1704067200000 = 2024"
  "getFullYear sampleEnv 1704067500000 = 2024"
  "getFullYear sampleEnv 1704067800000 = 2024"
  by (simp_all add: sampleEnv_def utcFullYear_samples)

lemma parseTime_sample_ok:
  "parseTime sampleEnv (TStr ''2024-01-01T00:00:00.000Z'') = Some 1704067200000"
  "parseTime sampleEnv (TStr ''2024-01-01T00:05:00.000Z'') = Some 1704067500000"
  "parseTime sampleEnv (TStr ''2024-01-01T00:10:00.000Z'') = Some 1704067800000"
  by (simp_all add: parseTime_def Let_def sample_trim sample_newDate sample_years)

subsection \<open>Visibility in the store\<close>

lemma samplePoint_sel:
  "postime (samplePoint t lo la) = t" "timestamp (samplePoint t lo la) = TNull"
  "lon (samplePoint t lo la) = lo" "lng (samplePoint t lo la) = None"
  "lat (samplePoint t lo la) = la" "speed (samplePoint t lo la) = None"
  "rot (samplePoint t lo la) = None" "draught (samplePoint t lo la) = None"
  "status (samplePoint t lo la) = None" "dest (samplePoint t lo la) = None"
  "eta (samplePoint t lo la) = None" "vessel_type (samplePoint t lo la) = None"
  "flag_ctry (samplePoint t lo la) = None"
  by (simp_all add: samplePoint_def)

lemma parseTime_TNull: "parseTime e TNull = None"
  by (simp add: parseTime_def)

lemma getAllVisibleShipsAtTime_multi:
  "getAllVisibleShipsAtTime e m v ''multi'' sel =
     map fst
       (filter (\<lambda>(mmsi, shipData').
                  startTime shipData' = None \<or> endTime shipData' = None \<or>
                  msm_time e v = None \<or>
                  (case msm_time e v of
                     None \<Rightarrow> False
                   | Some t \<Rightarrow> date_le (startTime shipData') t \<and>
                               date_le t (endTime shipData')))
               (ships m))"
  by (simp add: getAllVisibleShipsAtTime_def Let_def)

lemma visible_without_window:
  assumes "(mmsi, sd) \<in> set (ships m)" and "startTime sd = None \<or> endTime sd = None"
  shows "mmsi \<in> set (getAllVisibleShipsAtTime e m v ''multi'' sel)"
proof -
  let ?P = "\<lambda>(mmsi, shipData').
              startTime shipData' = None \<or> endTime shipData' = None \<or>
              msm_time e v = None \<or>
              (case msm_time e v of
                 None \<Rightarrow> False
               | Some t \<Rightarrow> date_le (startTime shipData') t \<and> date_le t (endTime shipData'))"
  have "?P (mmsi, sd)" using assms(2) by auto
  with assms(1) have "(mmsi, sd) \<in> set (filter ?P (ships m))" by simp
  then have "fst (mmsi, sd) \<in> fst ` set (filter ?P (ships m))" by (rule imageI)
  then show ?thesis by (simp add: getAllVisibleShipsAtTime_multi)
qed

lemma registry_excludes_sometime:
  assumes "distinct (map fst (tsc_ships r))"
  shows "\<exists>t. mmsi \<notin> set (getActiveShipsAtTime e r (TDate (Some t)))"
proof (cases "\<exists>w. (mmsi, w) \<in> set (tsc_ships r)")
  case True
  then obtain w where w: "(mmsi, w) \<in> set (tsc_ships r)" by blast
  have "tsc_time e (TDate (Some (tsc_endTime w + 1))) = Some (Some (tsc_endTime w + 1))"
    by (simp add: tsc_time_def)
  from getActiveShipsAtTime_mem [OF assms w this] show ?thesis by auto
next
  case False
  have "tsc_time e (TDate (Some 0)) = Some (Some 0)" by (simp add: tsc_time_def)
  from getActiveShipsAtTime_set [OF this, of r] False show ?thesis by auto
qed

lemma sample_sorted:
  "sortByTime sampleEnv
     [samplePoint (TStr ''2024-01-01T00:10:00.000Z'') (Some 121) (Some 31),
      samplePoint (TStr ''2024-01-01T00:00:00.000Z'') (Some 120) (Some 30)] =
     [samplePoint (TStr ''2024-01-01T00:00:00.000Z'') (Some 120) (Some 30),
      samplePoint (TStr ''2024-01-01T00:10:00.000Z'') (Some 121) (Some 31)]"
  "sortByTime sampleEnv
     [samplePoint (TStr ''2024-01-01T00:05:00.000Z'') (Some 10) (Some 0),
      samplePoint TNull (Some 11) (Some 1)] =
     [samplePoint (TStr ''2024-01-01T00:05:00.000Z'') (Some 10) (Some 0),
      samplePoint TNull (Some 11) (Some 1)]"
  by (simp_all add: sortByTime_def samplePoint_sel parseTime_sample_ok parseTime_TNull
      timeLE_def)

lemma sample_getShipColor: "getShipColor sampleEnv c = ''hsl(200, 70%, 50%)''"
  by (simp add: sampleEnv_def)

lemma sample_shipDataOf:
  "shipDataOf sampleEnv
     [samplePoint (TStr ''2024-01-01T00:00:00.000Z'') (Some 120) (Some 30),
      samplePoint (TStr ''2024-01-01T00:10:00.000Z'') (Some 121) (Some 31)] =
     \<lparr>trajectory =
          [samplePoint (TStr ''2024-01-01T00:00:00.000Z'') (Some 120) (Some 30),
           samplePoint (TStr ''2024-01-01T00:10:00.000Z'') (Some 121) (Some 31)],
        startTime = Some 1704067200000, endTime = Some 1704067800000,
        vesselType = [], flagCtry = [], color = ''hsl(200, 70%, 50%)'', ship_dest = [],
        iconSize = 30\<rparr>"
  "shipDataOf sampleEnv
     [samplePoint (TStr ''2024-01-01T00:05:00.000Z'') (Some 10) (Some 0),
      samplePoint TNull (Some 11) (Some 1)] =
     \<lparr>trajectory =
          [samplePoint (TStr ''2024-01-01T00:05:00.000Z'') (Some 10) (Some 0),
           samplePoint TNull (Some 11) (Some 1)],
        startTime = Some 1704067500000, endTime = None,
        vesselType = [], flagCtry = [], color = ''hsl(200, 70%, 50%)'', ship_dest = [],
        iconSize = 30\<rparr>"
  by (simp_all add: shipDataOf_def Let_def samplePoint_sel truthyT_def parseTime_sample_ok
      strOrEmpty_def cleanFlag_def calculateIconSize_samples sample_getShipColor)

lemma sample_ships:
  "ships sampleManager =
     [(''412000001'',
       \<lparr>trajectory =
          [samplePoint (TStr ''2024-01-01T00:00:00.000Z'') (Some 120) (Some 30),
           samplePoint (TStr ''2024-01-01T00:10:00.000Z'') (Some 121) (Some 31)],
        startTime = Some 1704067200000, endTime = Some 1704067800000,
        vesselType = [], flagCtry = [], color = ''hsl(200, 70%, 50%)'', ship_dest = [],
        iconSize = 30\<rparr>),
      (''412000002'',
       \<lparr>trajectory =
          [samplePoint (TStr ''2024-01-01T00:05:00.000Z'') (Some 10) (Some 0),
           samplePoint TNull (Some 11) (Some 1)],
        startTime = Some 1704067500000, endTime = None,
        vesselType = [], flagCtry = [], color = ''hsl(200, 70%, 50%)'', ship_dest = [],
        iconSize = 30\<rparr>)]"
  by (simp add: sampleManager_def initializeShips_def sampleGroups_def addShip_def Let_def
      sample_sorted sample_shipDataOf samplePoint_sel truthyT_def)


text \<open>
  \<^bold>\<open>C10.\<close> In multi mode the store's \<^verbatim>\<open>getAllVisibleShipsAtTime\<close> lists every loaded
  ship whose \<^verbatim>\<open>startTime\<close> or \<^verbatim>\<open>endTime\<close> is \<^verbatim>\<open>null\<close>, whatever the query time; and
  there are times at which the registry, loaded from the same data, leaves that ship out
  of \<^verbatim>\<open>getActiveShipsAtTime\<close> while the store lists it.
\<close>

theorem C10_store_visible_without_window:
  assumes "(mmsi, sd) \<in> set (ships (initializeShips e shipGroups))"
      and "startTime sd = None \<or> endTime sd = None"
  shows "(\<forall>v sel. mmsi \<in> set (getAllVisibleShipsAtTime e (initializeShips e shipGroups) v
                                ''multi'' sel)) \<and>
         (\<exists>t. mmsi \<notin> set (getActiveShipsAtTime e
                              (tsc_initializeShips e st0 shipGroups gtr) (TDate (Some t))) \<and>
              mmsi \<in> set (getAllVisibleShipsAtTime e (initializeShips e shipGroups)
                             (TDate (Some t)) ''multi'' None))"
proof -
  have v: "mmsi \<in> set (getAllVisibleShipsAtTime e (initializeShips e shipGroups) v ''multi'' sel)"
    for v sel
    using assms by (rule visible_without_window)
  obtain t where
    "mmsi \<notin> set (getActiveShipsAtTime e (tsc_initializeShips e st0 shipGroups gtr)
                    (TDate (Some t)))"
    using registry_excludes_sometime [OF tsc_initializeShips_distinct] by blast
  with v show ?thesis by blast
qed

theorem C10_store_visible_without_window_witness:
  "(''412000002'',
    \<lparr>trajectory =
       [samplePoint (TStr ''2024-01-01T00:05:00.000Z'') (Some 10) (Some 0),
        samplePoint TNull (Some 11) (Some 1)],
     startTime = Some 1704067500000, endTime = None,
     vesselType = [], flagCtry = [], color = ''hsl(200, 70%, 50%)'', ship_dest = [],
     iconSize = 30\<rparr>) \<in> set (ships (initializeShips sampleEnv (Some sampleGroups))) \<and>
   (\<forall>v sel. ''412000002'' \<in> set (getAllVisibleShipsAtTime sampleEnv
        (initializeShips sampleEnv (Some sampleGroups)) v ''multi'' sel)) \<and>
   ''412000002'' \<notin> set (getActiveShipsAtTime sampleEnv
        (tsc_initializeShips sampleEnv tsc_constructor (Some sampleGroups) None)
        (TStr ''2024-01-01T01:10:00.000Z''))"
proof -
  let ?sd = "\<lparr>trajectory =
       [samplePoint (TStr ''2024-01-01T00:05:00.000Z'') (Some 10) (Some 0),
        samplePoint TNull (Some 11) (Some 1)],
     startTime = Some 1704067500000, endTime = None,
     vesselType = [], flagCtry = [], color = ''hsl(200, 70%, 50%)'', ship_dest = [],
     iconSize = 30\<rparr>"
  have m: "(''412000002'', ?sd) \<in> set (ships (initializeShips sampleEnv (Some sampleGroups)))"
    using sample_ships by (simp add: sampleManager_def)
  have n: "startTime ?sd = None \<or> endTime ?sd = None" by simp
  have w: "(''412000002'', \<lparr>tsc_startTime = 1704067500000, tsc_endTime = 1704067500000\<rparr>)
            \<in> set (tsc_ships (tsc_initializeShips sampleEnv tsc_constructor
                                (Some sampleGroups) None))"
    using sample_tsc_ships by (simp add: sampleController_def)
  have x: "''412000002'' \<notin> set (getActiveShipsAtTime sampleEnv
        (tsc_initializeShips sampleEnv tsc_constructor (Some sampleGroups) None)
        (TStr ''2024-01-01T01:10:00.000Z''))"
    using getActiveShipsAtTime_mem [OF tsc_initializeShips_distinct w sample_tsc_time(2)]
    by simp
  from C10_store_visible_without_window [OF m n, of tsc_constructor None] m x
  show ?thesis by blast
qed

subsection \<open>Rounding to the nearest double\<close>

lemma roundEven_error: "\<bar>of_int (roundEven y) - y\<bar> \<le> 1 / 2"
proof -
  have "of_int \<lfloor>y\<rfloor> \<le> y" "y < of_int \<lfloor>y\<rfloor> + 1" by linarith+
  then show ?thesis by (auto simp: roundEven_def Let_def)
qed

lemma normDown_le: "normDown n k a \<le> k"
proof (induction n arbitrary: k)
  case 0
  show ?case by simp
next
  case (Suc n)
  from Suc [of "k - 1"] show ?case by simp
qed

lemma normUp_below: "2 powi k \<le> a \<Longrightarrow> 2 powi (normUp n k a) \<le> a"
  by (induction n arbitrary: k) simp_all

lemma exponentOf_small: "a < 1 \<Longrightarrow> exponentOf a \<le> 0"
  unfolding exponentOf_def by (simp only: if_True normDown_le)

lemma exponentOf_below: "1 \<le> a \<Longrightarrow> 2 powi (exponentOf a) \<le> a"
proof -
  assume a: "1 \<le> a"
  then have "\<not> a < 1" by simp
  moreover have "2 powi normUp 1023 0 a \<le> a" using a by (intro normUp_below) simp
  ultimately show ?thesis unfolding exponentOf_def by (simp only: if_False)
qed

lemma roundDouble_quantum: "\<bar>roundDouble x - x\<bar> \<le> 2 powi (exponentOf \<bar>x\<bar> - 53)"
proof -
  define q :: real where "q = 2 powi (exponentOf \<bar>x\<bar> - 52)"
  have q: "0 < q" by (simp add: q_def)
  have "roundDouble x - x = (of_int (roundEven (x / q)) - x / q) * q"
    using q by (simp add: roundDouble_def q_def [symmetric] Let_def algebra_simps)
  then have "\<bar>roundDouble x - x\<bar> = \<bar>of_int (roundEven (x / q)) - x / q\<bar> * q"
    using q by (simp add: abs_mult)
  also have "\<dots> \<le> 1 / 2 * q"
    using roundEven_error [of "x / q"] q by (intro mult_right_mono) simp_all
  also have "1 / 2 * q = 2 powi (exponentOf \<bar>x\<bar> - 53)"
    by (simp add: q_def power_int_diff)
  finally show ?thesis .
qed

lemma roundDouble_rel:
  assumes "1 \<le> \<bar>x\<bar>"
  shows "\<bar>roundDouble x - x\<bar> \<le> \<bar>x\<bar> / 2 ^ 53"
proof -
  have "2 powi (exponentOf \<bar>x\<bar> - 53) = 2 powi (exponentOf \<bar>x\<bar>) / (2 ^ 53 :: real)"
    by (simp add: power_int_diff)
  also have "\<dots> \<le> \<bar>x\<bar> / 2 ^ 53"
    using exponentOf_below [OF assms] by (intro divide_right_mono) simp_all
  finally show ?thesis using roundDouble_quantum [of x] by linarith
qed

lemma roundDouble_abs:
  assumes "\<bar>x\<bar> \<le> 1024"
  shows "\<bar>roundDouble x - x\<bar> \<le> 1 / 2 ^ 43"
proof -
  define e where "e = exponentOf \<bar>x\<bar>"
  have "e \<le> 10"
  proof (cases "\<bar>x\<bar> < 1")
    case True
    from exponentOf_small [OF this] show ?thesis unfolding e_def by linarith
  next
    case False
    then have "1 \<le> \<bar>x\<bar>" by linarith
    then have "2 powi e \<le> \<bar>x\<bar>" unfolding e_def by (rule exponentOf_below)
    also note assms
    also have "(1024 :: real) = 2 powi 10" by simp
    finally show ?thesis by (rule power_int_le_imp_le_exp [rotated]) simp_all
  qed
  then have "e - 53 \<le> - 43" by linarith
  then have "(2 :: real) powi (e - 53) \<le> 2 powi (- 43)"
    by (rule power_int_increasing) simp
  also have "(2 :: real) powi (- 43) = 1 / 2 ^ 43" by (simp add: power_int_minus field_simps)
  finally show ?thesis using roundDouble_quantum [of x] unfolding e_def by linarith
qed

lemma roundDouble_0: "roundDouble 0 = 0"
  by (simp add: roundDouble_def roundEven_def)


lemma pow2_less_cancel:
  assumes "(2 :: real) powi m < 2 powi n"
  shows "m < n"
proof (rule ccontr)
  assume "\<not> m < n"
  then have "n \<le> m" by simp
  then have "(2 :: real) powi n \<le> 2 powi m" by (rule power_int_increasing) simp
  with assms show False by simp
qed

lemma normDown_eq:
  "2 powi k \<le> a \<Longrightarrow> a < 2 powi (k + 1) \<Longrightarrow> k \<le> j \<Longrightarrow> j - k \<le> int n \<Longrightarrow>
   normDown n j a = k"
proof (induction n arbitrary: j)
  case 0
  then show ?case by simp
next
  case (Suc n)
  show ?case
  proof (cases "a < 2 powi j")
    case True
    with Suc.prems(1) have "(2 :: real) powi k < 2 powi j" by linarith
    then have "k < j" by (rule pow2_less_cancel)
    with Suc.prems have "normDown n (j - 1) a = k"
      by (intro Suc.IH) simp_all
    with True show ?thesis by simp
  next
    case False
    with Suc.prems(2) have "(2 :: real) powi j < 2 powi (k + 1)" by linarith
    then have "j < k + 1" by (rule pow2_less_cancel)
    with Suc.prems(3) False show ?thesis by simp
  qed
qed

lemma normUp_eq:
  "2 powi k \<le> a \<Longrightarrow> a < 2 powi (k + 1) \<Longrightarrow> j \<le> k \<Longrightarrow> k - j \<le> int n \<Longrightarrow>
   normUp n j a = k"
proof (induction n arbitrary: j)
  case 0
  then show ?case by simp
next
  case (Suc n)
  show ?case
  proof (cases "2 powi (j + 1) \<le> a")
    case True
    with Suc.prems(2) have "(2 :: real) powi (j + 1) < 2 powi (k + 1)" by linarith
    then have "j + 1 < k + 1" by (rule pow2_less_cancel)
    with Suc.prems have "normUp n (j + 1) a = k"
      by (intro Suc.IH) simp_all
    with True show ?thesis by simp
  next
    case False
    with Suc.prems(1) have "(2 :: real) powi k < 2 powi (j + 1)" by linarith
    then have "k < j + 1" by (rule pow2_less_cancel)
    with Suc.prems(3) False show ?thesis by simp
  qed
qed

lemma exponentOf_eq:
  assumes "2 powi k \<le> a" and "a < 2 powi (k + 1)" and "- 1022 \<le> k" and "k \<le> 1023"
  shows "exponentOf a = k"
proof (cases "a < 1")
  case True
  with assms(1) have "(2 :: real) powi k < 2 powi 0" by simp
  then have "k < 0" by (rule pow2_less_cancel)
  then have "normDown 1022 0 a = k"
    using assms by (intro normDown_eq) simp_all
  with True show ?thesis unfolding exponentOf_def by (simp only: if_True)
next
  case False
  with assms(2) have "(2 :: real) powi 0 < 2 powi (k + 1)" by simp
  then have "0 < k + 1" by (rule pow2_less_cancel)
  then have "normUp 1023 0 a = k"
    using assms by (intro normUp_eq) simp_all
  with False show ?thesis unfolding exponentOf_def by (simp only: if_False)
qed

lemma roundDouble_eval:
  assumes "2 powi k \<le> \<bar>x\<bar>" and "\<bar>x\<bar> < 2 powi (k + 1)" and "- 1022 \<le> k" and "k \<le> 1023"
  shows "roundDouble x = of_int (roundEven (x / 2 powi (k - 52))) * 2 powi (k - 52)"
  unfolding roundDouble_def exponentOf_eq [OF assms] Let_def ..

lemma toFixed6_error: "\<bar>toFixed6 x - x\<bar> \<le> 1 / 2000000"
proof (cases "x < 0")
  case False
  define n where "n = \<lfloor>x * 1000000 + 1 / 2\<rfloor>"
  have "of_int n \<le> x * 1000000 + 1 / 2" "x * 1000000 + 1 / 2 < of_int n + 1"
    unfolding n_def by linarith+
  then have "\<bar>of_int n / 1000000 - x\<bar> \<le> 1 / 2000000" by linarith
  with False show ?thesis by (simp add: toFixed6_def n_def)
next
  case True
  define n where "n = \<lfloor>- x * 1000000 + 1 / 2\<rfloor>"
  have "of_int n \<le> - x * 1000000 + 1 / 2" "- x * 1000000 + 1 / 2 < of_int n + 1"
    unfolding n_def by linarith+
  then have "\<bar>- (of_int n / 1000000) - x\<bar> \<le> 1 / 2000000" by linarith
  with True show ?thesis by (simp add: toFixed6_def n_def)
qed

lemma roundDouble_small: "\<bar>x\<bar> \<le> 1024 \<Longrightarrow> \<bar>roundDouble x - x\<bar> \<le> 1 / 8000000000000"
proof -
  assume "\<bar>x\<bar> \<le> 1024"
  then have "\<bar>roundDouble x - x\<bar> \<le> 1 / 2 ^ 43" by (rule roundDouble_abs)
  also have "(1 :: real) / 2 ^ 43 \<le> 1 / 8000000000000" by simp
  finally show ?thesis .
qed

lemma scaled_error:
  fixes d c p g :: real
  assumes "\<bar>d - c\<bar> \<le> g" and "0 \<le> p" and "p \<le> 1"
  shows "\<bar>d * p - c * p\<bar> \<le> g"
proof -
  have "\<bar>d * p - c * p\<bar> = \<bar>d - c\<bar> * p"
    using assms(2) by (simp add: abs_mult left_diff_distrib [symmetric])
  also have "\<dots> \<le> \<bar>d - c\<bar> * 1" using assms(3) by (intro mult_left_mono) simp_all
  finally show ?thesis using assms(1) by simp
qed

lemma scaled_bound:
  fixes d p b :: real
  assumes "\<bar>d\<bar> \<le> b" and "0 \<le> p" and "p \<le> 1"
  shows "\<bar>d * p\<bar> \<le> b"
  using scaled_error [of d 0 b p] assms by simp

lemma interpolated_coordinate_error:
  fixes a b p :: real
  assumes a: "\<bar>a\<bar> \<le> 180" and b: "\<bar>b\<bar> \<le> 180" and p: "0 \<le> p" "p \<le> 1"
  shows "\<bar>roundDouble (toFixed6 (roundDouble (a + roundDouble (roundDouble (b - a) * p)))) -
          (a + (b - a) * p)\<bar> \<le> 1 / 2000000 + 1 / 2000000000000"
proof -
  let ?g = "1 / 8000000000000 :: real"
  define d where "d = roundDouble (b - a)"
  define m where "m = roundDouble (d * p)"
  define s where "s = roundDouble (a + m)"
  define z where "z = toFixed6 s"
  have "\<bar>b - a\<bar> \<le> 1024" using a b by linarith
  then have d: "\<bar>d - (b - a)\<bar> \<le> ?g" unfolding d_def by (rule roundDouble_small)
  then have "\<bar>d\<bar> \<le> 361" using a b by linarith
  then have dp: "\<bar>d * p\<bar> \<le> 361" using p by (rule scaled_bound)
  then have "\<bar>d * p\<bar> \<le> 1024" by linarith
  then have m: "\<bar>m - d * p\<bar> \<le> ?g" unfolding m_def by (rule roundDouble_small)
  have e: "\<bar>d * p - (b - a) * p\<bar> \<le> ?g" using d p by (rule scaled_error)
  have "\<bar>a + m\<bar> \<le> 1024" using a m dp by linarith
  then have s: "\<bar>s - (a + m)\<bar> \<le> ?g" unfolding s_def by (rule roundDouble_small)
  have z: "\<bar>z - s\<bar> \<le> 1 / 2000000" unfolding z_def by (rule toFixed6_error)
  have "\<bar>z\<bar> \<le> 1024" using z s a m dp by linarith
  then have w: "\<bar>roundDouble z - z\<bar> \<le> ?g" by (rule roundDouble_small)
  have "\<bar>roundDouble z - (a + (b - a) * p)\<bar> \<le> 1 / 2000000 + 1 / 2000000000000"
    using w z s m e by linarith
  then show ?thesis unfolding z_def s_def m_def d_def .
qed

lemma clamp_error:
  fixes q P g :: real
  assumes "0 \<le> P" and "P \<le> 1" and "\<bar>q - P\<bar> \<le> g"
  shows "\<bar>max 0 (min 1 q) - P\<bar> \<le> g"
  using assms unfolding max_def min_def by (cases "q \<le> 0"; cases "1 \<le> q") auto

lemma progress_error:
  fixes t t1 t2 :: int
  assumes "t1 < t" and "t < t2"
  defines "elapsed \<equiv> roundDouble (real_of_int (t - t1))"
      and "timeDiff \<equiv> roundDouble (real_of_int (t2 - t1))"
  shows "0 < timeDiff"
    and "\<bar>max 0 (min 1 (roundDouble (elapsed / timeDiff))) -
          real_of_int (t - t1) / real_of_int (t2 - t1)\<bar> \<le> 1 / 4000000000000"
proof -
  define E where "E = real_of_int (t - t1)"
  define D where "D = real_of_int (t2 - t1)"
  let ?u = "1 / 2 ^ 53 :: real"
  have E1: "1 \<le> E" using assms(1) by (simp add: E_def)
  have ED: "E \<le> D" using assms(2) by (simp add: E_def D_def)
  have D1: "1 \<le> D" using E1 ED by linarith
  have "\<bar>elapsed - E\<bar> \<le> \<bar>E\<bar> / 2 ^ 53"
    unfolding elapsed_def E_def [symmetric] using E1 by (intro roundDouble_rel) linarith
  then have el: "\<bar>elapsed - E\<bar> \<le> E * ?u" using E1 by simp
  have "\<bar>timeDiff - D\<bar> \<le> \<bar>D\<bar> / 2 ^ 53"
    unfolding timeDiff_def D_def [symmetric] using D1 by (intro roundDouble_rel) linarith
  then have td: "\<bar>timeDiff - D\<bar> \<le> D * ?u" using D1 by simp
  have u: "?u \<le> 1 / 2" "0 < ?u" by simp_all
  have "D * ?u \<le> D * (1 / 2)" using D1 u(1) by (intro mult_left_mono) simp_all
  with td have half: "D / 2 \<le> timeDiff" by linarith
  with D1 show pos: "0 < timeDiff" by linarith
  have DD: "0 < timeDiff * D" using pos D1 by simp
  have "elapsed * D - E * timeDiff = (elapsed - E) * D - E * (timeDiff - D)"
    by (simp add: algebra_simps)
  then have "\<bar>elapsed * D - E * timeDiff\<bar> \<le> \<bar>(elapsed - E) * D\<bar> + \<bar>E * (timeDiff - D)\<bar>"
    by linarith
  also have "\<bar>(elapsed - E) * D\<bar> = \<bar>elapsed - E\<bar> * D" using D1 by (simp add: abs_mult)
  also have "\<bar>E * (timeDiff - D)\<bar> = E * \<bar>timeDiff - D\<bar>" using E1 by (simp add: abs_mult)
  also have "\<bar>elapsed - E\<bar> * D \<le> E * ?u * D" using el D1 by (intro mult_right_mono) simp_all
  also have "E * \<bar>timeDiff - D\<bar> \<le> E * (D * ?u)" using td E1 by (intro mult_left_mono) simp_all
  finally have n: "\<bar>elapsed * D - E * timeDiff\<bar> \<le> 2 * ?u * (E * D)"
    by (simp add: algebra_simps)
  have "E * D \<le> D * D" using ED D1 by (intro mult_right_mono) simp_all
  also have "D * D \<le> 2 * timeDiff * D" using half D1 by (simp add: mult_right_mono)
  finally have "2 * ?u * (E * D) \<le> 2 * ?u * (2 * timeDiff * D)"
    using u(2) by (intro mult_left_mono) simp_all
  with n have n': "\<bar>elapsed * D - E * timeDiff\<bar> \<le> 4 * ?u * (timeDiff * D)"
    by (simp add: algebra_simps)
  have "elapsed / timeDiff - E / D = (elapsed * D - E * timeDiff) / (timeDiff * D)"
    using pos D1 by (simp add: field_simps)
  then have "\<bar>elapsed / timeDiff - E / D\<bar> = \<bar>elapsed * D - E * timeDiff\<bar> / (timeDiff * D)"
    using DD by simp
  also have "\<dots> \<le> 4 * ?u * (timeDiff * D) / (timeDiff * D)"
    using n' DD by (intro divide_right_mono) simp_all
  also have "\<dots> = 4 * ?u" using pos D1 by simp
  finally have q: "\<bar>elapsed / timeDiff - E / D\<bar> \<le> 4 * ?u" .
  have P0: "0 \<le> E / D" using E1 D1 by simp
  have P1: "E / D \<le> 1" using ED D1 by (simp add: divide_le_eq_1)
  have "4 * ?u \<le> 1" by simp
  with q P0 P1 have "\<bar>elapsed / timeDiff\<bar> \<le> 1024" by linarith
  then have r: "\<bar>roundDouble (elapsed / timeDiff) - elapsed / timeDiff\<bar> \<le> 1 / 8000000000000"
    by (rule roundDouble_small)
  have "4 * ?u \<le> 1 / 8000000000000" by simp
  with q r have "\<bar>roundDouble (elapsed / timeDiff) - E / D\<bar> \<le> 1 / 4000000000000"
    by linarith
  with P0 P1 have "\<bar>max 0 (min 1 (roundDouble (elapsed / timeDiff))) - E / D\<bar>
      \<le> 1 / 4000000000000"
    by (rule clamp_error)
  then show "\<bar>max 0 (min 1 (roundDouble (elapsed / timeDiff))) -
      real_of_int (t - t1) / real_of_int (t2 - t1)\<bar> \<le> 1 / 4000000000000"
    unfolding E_def D_def .
qed

subsection \<open>Positions\<close>

lemma binarySearch_bounds:
  "left < right \<Longrightarrow> binarySearch e traj time left right = (l, r) \<Longrightarrow>
   left \<le> l \<and> r = Suc l \<and> r \<le> right"
proof (induction e traj time left right rule: binarySearch.induct)
  case (1 e traj time left right)
  show ?case
  proof (cases "left + 1 < right")
    case False
    with "1.prems" show ?thesis by (simp add: binarySearch.simps [of e traj time left right])
  next
    case True
    define mid where "mid = (left + right) div 2"
    have m: "left < mid" "mid < right" using True by (simp_all add: mid_def)
    show ?thesis
    proof (cases "parseTime e (postime (traj ! mid))")
      case None
      with True "1.prems"(2) have "binarySearch e traj time mid right = (l, r)"
        by (simp add: binarySearch.simps [of e traj time left right] mid_def Let_def)
      with "1.IH"(1) [OF True mid_def None m(2)] m show ?thesis by simp
    next
      case (Some midTime)
      show ?thesis
      proof (cases "date_le (Some midTime) time")
        case le: True
        with True Some "1.prems"(2) have "binarySearch e traj time mid right = (l, r)"
          by (simp add: binarySearch.simps [of e traj time left right] mid_def Let_def)
        with "1.IH"(2) [OF True mid_def Some le m(2)] m show ?thesis by simp
      next
        case gt: False
        with True Some "1.prems"(2) have "binarySearch e traj time left mid = (l, r)"
          by (simp add: binarySearch.simps [of e traj time left right] mid_def Let_def)
        with "1.IH"(3) [OF True mid_def Some gt m(1)] m show ?thesis by simp
      qed
    qed
  qed
qed

lemma formatPosition_coords:
  "pos_lng (formatPosition p) = Some (lngOf p)" "pos_lat (formatPosition p) = Some (latOf p)"
  "pos_lon (formatPosition p) = Some (lngOf p)" "hdg (formatPosition p) = 0"
  "cog (formatPosition p) = 0"
  by (simp_all add: formatPosition_def)

lemma setDirection_coords:
  "pos_lng (setDirection d pos) = pos_lng pos" "pos_lat (setDirection d pos) = pos_lat pos"
  "pos_lon (setDirection d pos) = pos_lon pos" "hdg (setDirection d pos) = d"
  "cog (setDirection d pos) = d"
  by (simp_all add: setDirection_def)

lemma nearSegment_setDirection:
  "nearSegment traj (setDirection d pos) = nearSegment traj pos"
  by (simp add: nearSegment_def setDirection_coords)

lemma nearSegment_point:
  assumes "k < length traj" and "2 \<le> length traj"
  shows "nearSegment traj (formatPosition (traj ! k))"
proof (cases "Suc k < length traj")
  case True
  have "pos_lng (formatPosition (traj ! k)) = Some (segLng traj k 0)"
       "pos_lat (formatPosition (traj ! k)) = Some (segLat traj k 0)"
    by (simp_all add: formatPosition_coords segLng_def segLat_def)
  with True show ?thesis unfolding nearSegment_def
    by (intro exI [of _ k] exI [of _ 0] exI [of _ "segLng traj k 0"]
        exI [of _ "segLat traj k 0"]) simp
next
  case False
  with assms obtain j where j: "k = Suc j" by (cases k) auto
  have "pos_lng (formatPosition (traj ! k)) = Some (segLng traj j 1)"
       "pos_lat (formatPosition (traj ! k)) = Some (segLat traj j 1)"
    by (simp_all add: formatPosition_coords segLng_def segLat_def j)
  with assms(1) j show ?thesis unfolding nearSegment_def
    by (intro exI [of _ j] exI [of _ 1] exI [of _ "segLng traj j 1"]
        exI [of _ "segLat traj j 1"]) simp
qed

lemma interpolatePosition_coords:
  "pos_lng (interpolatePosition p1 p2 (Some q)) =
     Some (roundDouble (toFixed6 (roundDouble (lngOf p1 +
             roundDouble (roundDouble (lngOf p2 - lngOf p1) * max 0 (min 1 q))))))"
  "pos_lat (interpolatePosition p1 p2 (Some q)) =
     Some (roundDouble (toFixed6 (roundDouble (latOf p1 +
             roundDouble (roundDouble (latOf p2 - latOf p1) * max 0 (min 1 q))))))"
  "pos_lon (interpolatePosition p1 p2 (Some q)) =
     Some (roundDouble (toFixed6 (roundDouble (lngOf p1 +
             roundDouble (roundDouble (lngOf p2 - lngOf p1) * max 0 (min 1 q))))))"
  "hdg (interpolatePosition p1 p2 pr) = calculateDirection p1 p2"
  "cog (interpolatePosition p1 p2 pr) = calculateDirection p1 p2"
  by (simp_all add: interpolatePosition_def Let_def)

lemma interpolatePosition_near:
  assumes "\<bar>lngOf p1\<bar> \<le> 180" and "\<bar>lngOf p2\<bar> \<le> 180"
      and "\<bar>latOf p1\<bar> \<le> 90" and "\<bar>latOf p2\<bar> \<le> 90"
  shows "\<exists>x y. pos_lng (interpolatePosition p1 p2 (Some q)) = Some x \<and>
               pos_lat (interpolatePosition p1 p2 (Some q)) = Some y \<and>
               pos_lon (interpolatePosition p1 p2 (Some q)) = Some x \<and>
               \<bar>x - (lngOf p1 + (lngOf p2 - lngOf p1) * max 0 (min 1 q))\<bar>
                 \<le> 1 / 2000000 + 1 / 2000000000000 \<and>
               \<bar>y - (latOf p1 + (latOf p2 - latOf p1) * max 0 (min 1 q))\<bar>
                 \<le> 1 / 2000000 + 1 / 2000000000000"
proof -
  let ?q = "max 0 (min 1 q)"
  have q: "0 \<le> ?q" "?q \<le> 1" by simp_all
  have la: "\<bar>latOf p1\<bar> \<le> 180" "\<bar>latOf p2\<bar> \<le> 180" using assms(3,4) by linarith+
  note interpolated_coordinate_error [OF assms(1,2) q]
    interpolated_coordinate_error [OF la q]
  then show ?thesis by (simp only: interpolatePosition_coords option.inject simp_thms ex_simps)
qed

lemma nearSegment_interpolate:
  assumes "Suc l < length traj"
      and "\<bar>lngOf (traj ! l)\<bar> \<le> 180" and "\<bar>lngOf (traj ! Suc l)\<bar> \<le> 180"
      and "\<bar>latOf (traj ! l)\<bar> \<le> 90" and "\<bar>latOf (traj ! Suc l)\<bar> \<le> 90"
  shows "nearSegment traj (interpolatePosition (traj ! l) (traj ! Suc l) (Some q))"
proof -
  let ?q = "max 0 (min 1 q)"
  let ?pos = "interpolatePosition (traj ! l) (traj ! Suc l) (Some q)"
  have q: "0 \<le> ?q" "?q \<le> 1" by simp_all
  from interpolatePosition_near [OF assms(2-5), of q] obtain x y where
    xy: "pos_lng ?pos = Some x" "pos_lat ?pos = Some y"
    and ex: "\<bar>x - segLng traj l ?q\<bar> \<le> 1 / 2000000 + 1 / 2000000000000"
    and ey: "\<bar>y - segLat traj l ?q\<bar> \<le> 1 / 2000000 + 1 / 2000000000000"
    unfolding segLng_def segLat_def by blast
  from ex have "\<bar>x - segLng traj l ?q\<bar> \<le> 1 / 1000000" by linarith
  moreover from ey have "\<bar>y - segLat traj l ?q\<bar> \<le> 1 / 1000000" by linarith
  ultimately show ?thesis unfolding nearSegment_def
    using assms(1) q xy by blast
qed

lemma positionBetween_nearSegment:
  assumes "Suc l < length traj"
      and "\<bar>lngOf (traj ! l)\<bar> \<le> 180" and "\<bar>lngOf (traj ! Suc l)\<bar> \<le> 180"
      and "\<bar>latOf (traj ! l)\<bar> \<le> 90" and "\<bar>latOf (traj ! Suc l)\<bar> \<le> 90"
  shows "nearSegment traj (positionBetween e traj (Some t) l (Suc l))"
proof -
  have n: "2 \<le> length traj" using assms(1) by simp
  have pts: "nearSegment traj (formatPosition (traj ! k))" if "k < length traj" for k
    using that n by (rule nearSegment_point)
  have l: "l < length traj" using assms(1) by simp
  note p1 = pts [OF l] and p2 = pts [OF assms(1)]
  note ip = nearSegment_interpolate [OF assms]
  show ?thesis
  proof (cases "parseTime e (postime (traj ! l))")
    case None
    then show ?thesis
      using p1 p2
      by (cases "parseTime e (postime (traj ! Suc l))")
         (simp_all add: positionBetween_def Let_def nearSegment_setDirection)
  next
    case t1: (Some t1)
    show ?thesis
    proof (cases "parseTime e (postime (traj ! Suc l))")
      case None
      with t1 p1 show ?thesis
        by (simp add: positionBetween_def Let_def nearSegment_setDirection)
    next
      case t2: (Some t2)
      consider "t = t1" | "t \<noteq> t1" "t = t2" | "t \<noteq> t1" "t \<noteq> t2" by blast
      then show ?thesis
      proof cases
        case 1
        with t1 t2 p1 show ?thesis
          by (auto simp add: positionBetween_def Let_def nearSegment_setDirection)
      next
        case 2
        with t1 t2 p2 show ?thesis
          by (simp add: positionBetween_def Let_def nearSegment_setDirection)
      next
        case 3
        with t1 t2 have "\<exists>q. positionBetween e traj (Some t) l (Suc l) =
            interpolatePosition (traj ! l) (traj ! Suc l) (Some q)"
          by (simp add: positionBetween_def Let_def) blast
        with ip show ?thesis by auto
      qed
    qed
  qed
qed

lemma getShipPositionAtTime_nearSegment:
  assumes "map_of (ships m) mmsi = Some sd"
      and "2 \<le> length (trajectory sd)"
      and "msm_time e v = Some (Some t)"
      and "\<forall>p\<in>set (trajectory sd). \<bar>lngOf p\<bar> \<le> 180 \<and> \<bar>latOf p\<bar> \<le> 90"
  shows "\<exists>pos. getShipPositionAtTime e m mmsi v = Some pos \<and>
               nearSegment (trajectory sd) pos"
proof -
  define traj where "traj = trajectory sd"
  have n: "2 \<le> length traj" using assms(2) by (simp add: traj_def)
  then have ne: "traj \<noteq> []" "length traj \<noteq> 1" "0 < length traj - 1" by auto
  have geo: "\<bar>lngOf (traj ! k)\<bar> \<le> 180" "\<bar>latOf (traj ! k)\<bar> \<le> 90" if "k < length traj" for k
    using assms(4) that unfolding traj_def by (simp_all add: nth_mem)
  have p0: "nearSegment traj (formatPosition (traj ! 0))"
    using n by (intro nearSegment_point; linarith)
  have pn: "nearSegment traj (formatPosition (traj ! (length traj - 1)))"
    using n by (intro nearSegment_point; linarith)
  obtain l r where bs: "binarySearch e traj (Some t) 0 (length traj - 1) = (l, r)"
    by (cases "binarySearch e traj (Some t) 0 (length traj - 1)") blast
  from binarySearch_bounds [OF ne(3) bs] have b: "r = Suc l" "r \<le> length traj - 1"
    by blast+
  then have r: "r = Suc l" "Suc l < length traj"
    using n by linarith+
  then have l: "l < length traj" by linarith
  have pb: "nearSegment traj (positionBetween e traj (Some t) l r)"
    unfolding r(1)
    by (rule positionBetween_nearSegment [OF r(2) geo(1) [OF l] geo(1) [OF r(2)]
          geo(2) [OF l] geo(2) [OF r(2)]])
  show ?thesis
    using assms(1,3) ne(1,2) p0 pn pb bs
    by (simp add: getShipPositionAtTime_def Let_def traj_def [symmetric]
        nearSegment_setDirection)
qed

subsection \<open>Loaded ships are sorted\<close>

lemma timeLE_refl: "timeLE a a"
  by (cases a) (simp_all add: timeLE_def)

lemma timeLE_trans: "timeLE a b \<Longrightarrow> timeLE b c \<Longrightarrow> timeLE a c"
  by (cases a; cases b; cases c) (simp_all add: timeLE_def)

lemma timeLE_total: "\<not> timeLE a b \<Longrightarrow> timeLE b a"
  by (cases a; cases b) (simp_all add: timeLE_def)

lemma timeLE_Some: "timeLE a (Some y) \<Longrightarrow> \<exists>x. a = Some x \<and> x \<le> y"
  by (cases a) (simp_all add: timeLE_def)

lemma timeLE_from_Some: "timeLE (Some x) b \<Longrightarrow> b = None \<or> (\<exists>y. b = Some y \<and> x \<le> y)"
  by (cases b) (simp_all add: timeLE_def)

lemma set_insertByTime: "set (insertByTime e a xs) = insert a (set xs)"
  by (induction xs) auto

lemma insertByTime_nonempty: "insertByTime e a xs \<noteq> []"
  by (cases xs) simp_all

lemma sorted_insertByTime:
  "sorted_wrt (\<lambda>a b. timeLE (timeOf e a) (timeOf e b)) xs \<Longrightarrow>
   sorted_wrt (\<lambda>a b. timeLE (timeOf e a) (timeOf e b)) (insertByTime e a xs)"
proof (induction xs)
  case Nil
  then show ?case by simp
next
  case (Cons b bs)
  show ?case
  proof (cases "timeLE (parseTime e (postime a)) (parseTime e (postime b))")
    case True
    then have "\<forall>x \<in> set bs. timeLE (timeOf e a) (timeOf e x)"
      using Cons.prems timeLE_trans by (fastforce simp: timeOf_def)
    with True Cons.prems show ?thesis by (simp add: timeOf_def)
  next
    case False
    then have "timeLE (timeOf e b) (timeOf e a)"
      by (simp add: timeOf_def timeLE_total)
    with False Cons show ?thesis by (auto simp: set_insertByTime)
  qed
qed

lemma sorted_sortByTime:
  "sorted_wrt (\<lambda>a b. timeLE (timeOf e a) (timeOf e b)) (sortByTime e ps)"
  unfolding sortByTime_def by (induction ps) (simp_all add: sorted_insertByTime)

lemma sortByTime_nonempty: "ps \<noteq> [] \<Longrightarrow> sortByTime e ps \<noteq> []"
  by (cases ps) (simp_all add: sortByTime_def insertByTime_nonempty)

lemma parseTime_falsy: "\<not> truthyT tv \<Longrightarrow> parseTime e tv = None"
  by (cases tv) (simp_all add: truthyT_def parseTime_def)

lemma sorted_without_timestamps:
  assumes "\<not> list_ex (\<lambda>p. truthyT (postime p)) traj"
  shows "sorted_wrt (\<lambda>a b. timeLE (timeOf e a) (timeOf e b)) traj"
proof -
  have "timeOf e p = None" if "p \<in> set traj" for p
    using assms that by (auto simp: list_ex_iff timeOf_def parseTime_falsy)
  then show ?thesis
    by (simp add: sorted_wrt_iff_nth_less timeLE_def)
qed

lemma shipDataOf_fields:
  "trajectory (shipDataOf e traj) = traj"
  "startTime (shipDataOf e traj) = timeOf e (traj ! 0)"
  "endTime (shipDataOf e traj) = timeOf e (traj ! (length traj - 1))"
  by (simp_all add: shipDataOf_def Let_def timeOf_def parseTime_falsy)

lemma loadedShip_shipDataOf:
  assumes "traj \<noteq> []"
  shows "loadedShip e
           (shipDataOf e (if list_ex (\<lambda>p. truthyT (postime p)) traj
                          then sortByTime e traj else traj))"
  using assms
  by (simp add: loadedShip_def shipDataOf_fields sorted_sortByTime sortByTime_nonempty
      sorted_without_timestamps)

lemma addShip_loaded:
  assumes "\<forall>(k, sd) \<in> set (ships m). loadedShip e sd"
  shows "\<forall>(k, sd) \<in> set (ships (addShip e m mmsi g)). loadedShip e sd"
proof (cases "mmsi = [] \<or> g = None \<or> g = Some []")
  case True
  then show ?thesis using assms by (auto simp: addShip_def)
next
  case False
  then obtain traj where g: "g = Some traj" "traj \<noteq> []" "mmsi \<noteq> []" by auto
  let ?sd = "shipDataOf e (if list_ex (\<lambda>p. truthyT (postime p)) traj
                           then sortByTime e traj else traj)"
  have s: "ships (addShip e m mmsi g) = AList.update mmsi ?sd (ships m)"
    using g by (simp add: addShip_def Let_def)
  show ?thesis
    unfolding s using assms loadedShip_shipDataOf [OF g(2), of e]
    by (auto dest: set_AList_update)
qed

lemma initializeShips_loaded:
  assumes "(mmsi, sd) \<in> set (ships (initializeShips e shipGroups))"
  shows "loadedShip e sd"
proof -
  have f: "\<forall>(k, sd) \<in> set (ships m). loadedShip e sd \<Longrightarrow>
      \<forall>(k, sd) \<in> set (ships (fold (\<lambda>(mmsi, shipData') m.
                  case shipData' of
                    None \<Rightarrow> m
                  | Some traj \<Rightarrow> if traj = [] then m else addShip e m mmsi shipData')
               groups m)). loadedShip e sd" for groups m
  proof (induction groups arbitrary: m)
    case Nil
    then show ?case by simp
  next
    case (Cons g groups)
    obtain k d where g: "g = (k, d)" by (cases g)
    have "\<forall>(k, sd) \<in> set (ships (case d of None \<Rightarrow> m
            | Some traj \<Rightarrow> if traj = [] then m else addShip e m k d)). loadedShip e sd"
      using Cons.prems addShip_loaded [OF Cons.prems, of k d]
      by (simp split: option.split)
    from Cons.IH [OF this] show ?case by (simp add: g)
  qed
  show ?thesis
  proof (cases shipGroups)
    case None
    with assms show ?thesis by (simp add: initializeShips_def)
  next
    case (Some groups)
    have "\<forall>(k, sd) \<in> set (ships \<lparr>ships = []\<rparr>). loadedShip e sd" by simp
    from f [OF this, of groups] assms Some show ?thesis
      by (auto simp: initializeShips_def)
  qed
qed

subsection \<open>The interpolation branch\<close>

declare binarySearch.simps [simp del]

lemma positionBetween_interpolates:
  assumes "parseTime e (postime (traj ! l)) = Some t1"
      and "parseTime e (postime (traj ! r)) = Some t2"
      and "t1 < t" and "t < t2"
  shows "positionBetween e traj (Some t) l r =
           interpolatePosition (traj ! l) (traj ! r)
             (Some (max 0 (min 1 (roundDouble (roundDouble (real_of_int (t - t1)) /
                                               roundDouble (real_of_int (t2 - t1)))))))"
proof -
  have d: "0 < roundDouble (real_of_int (t2 - t1))"
    using assms(3,4) by (rule progress_error(1))
  have ne: "t \<noteq> t1" "t \<noteq> t2" using assms(3,4) by simp_all
  show ?thesis
    unfolding positionBetween_def
    by (simp only: assms(1,2) ne d Let_def option.case option.inject if_True if_False
        option.map)
qed

lemma loaded_reaches_search:
  assumes ld: "loadedShip e sd"
      and l: "l < length (trajectory sd)" and r: "r < length (trajectory sd)"
      and t1: "timeOf e (trajectory sd ! l) = Some t1"
      and t2: "timeOf e (trajectory sd ! r) = Some t2"
      and lt: "t1 < t" "t < t2"
  shows "\<not> (startTime sd \<noteq> None \<and> date_lt (Some t) (startTime sd))"
    and "\<not> (endTime sd \<noteq> None \<and> date_lt (endTime sd) (Some t))"
proof -
  let ?traj = "trajectory sd"
  let ?R = "\<lambda>a b. timeLE (timeOf e a) (timeOf e b)"
  have s: "sorted_wrt ?R ?traj" and ne: "?traj \<noteq> []"
    and st: "startTime sd = timeOf e (?traj ! 0)"
    and en: "endTime sd = timeOf e (?traj ! (length ?traj - 1))"
    using ld by (simp_all add: loadedShip_def)
  have le: "?R (?traj ! i) (?traj ! j)" if "i \<le> j" "j < length ?traj" for i j
  proof (cases "i = j")
    case True
    then show ?thesis by (simp add: timeLE_refl)
  next
    case False
    with that have "i < j" by simp
    with s that(2) show ?thesis by (simp add: sorted_wrt_iff_nth_less)
  qed
  have "?R (?traj ! 0) (?traj ! l)" using l by (intro le) simp_all
  then obtain s0 where s0: "timeOf e (?traj ! 0) = Some s0" "s0 \<le> t1"
    unfolding t1 by (blast dest: timeLE_Some)
  then show "\<not> (startTime sd \<noteq> None \<and> date_lt (Some t) (startTime sd))"
    using lt by (simp add: st date_lt_def)
  have "?R (?traj ! r) (?traj ! (length ?traj - 1))" using r by (intro le) simp_all
  then have "timeOf e (?traj ! (length ?traj - 1)) = None \<or>
             (\<exists>y. timeOf e (?traj ! (length ?traj - 1)) = Some y \<and> t2 \<le> y)"
    unfolding t2 by (rule timeLE_from_Some)
  then show "\<not> (endTime sd \<noteq> None \<and> date_lt (endTime sd) (Some t))"
    using lt by (auto simp: en date_lt_def)
qed

lemma getShipPositionAtTime_interpolates:
  assumes m: "map_of (ships (initializeShips e shipGroups)) mmsi = Some sd"
      and v: "msm_time e v = Some (Some t)"
      and bs: "binarySearch e (trajectory sd) (Some t) 0 (length (trajectory sd) - 1) = (l, r)"
      and t1: "parseTime e (postime (trajectory sd ! l)) = Some t1"
      and t2: "parseTime e (postime (trajectory sd ! r)) = Some t2"
      and lt: "t1 < t" "t < t2"
  shows "getShipPositionAtTime e (initializeShips e shipGroups) mmsi v =
           Some (interpolatePosition (trajectory sd ! l) (trajectory sd ! r)
                   (Some (max 0 (min 1 (roundDouble (roundDouble (real_of_int (t - t1)) /
                                                     roundDouble (real_of_int (t2 - t1))))))))"
proof -
  define traj where "traj = trajectory sd"
  have ld: "loadedShip e sd"
    using m by (intro initializeShips_loaded) (rule map_of_SomeD)
  then have ne: "traj \<noteq> []" by (simp add: loadedShip_def traj_def)
  have n1: "length traj \<noteq> 1"
  proof
    assume "length traj = 1"
    then have "binarySearch e traj (Some t) 0 (length traj - 1) = (0, 0)"
      by (simp add: binarySearch.simps [of e traj "Some t" 0 0])
    with bs have "l = 0" "r = 0" by (simp_all add: traj_def)
    with t1 t2 lt show False by simp
  qed
  from ne n1 have n2: "0 < length traj - 1"
    by (cases traj) (auto simp: Suc_lessI)
  from binarySearch_bounds [OF n2 bs [folded traj_def]]
  have b: "r = Suc l" "r \<le> length traj - 1" by blast+
  then have lr: "l < length traj" "r < length traj" using n2 by linarith+
  note reach = loaded_reaches_search [OF ld lr [unfolded traj_def]
      t1 [folded timeOf_def] t2 [folded timeOf_def] lt]
  have st: "startTime sd = parseTime e (postime (traj ! 0))"
    and en: "endTime sd = parseTime e (postime (traj ! (length traj - 1)))"
    using ld by (simp_all add: loadedShip_def traj_def timeOf_def)
  have pb: "positionBetween e traj (Some t) l r =
           interpolatePosition (traj ! l) (traj ! r)
             (Some (max 0 (min 1 (roundDouble (roundDouble (real_of_int (t - t1)) /
                                               roundDouble (real_of_int (t2 - t1)))))))"
    using t1 t2 lt unfolding traj_def by (rule positionBetween_interpolates)
  have f1: "\<not> (parseTime e (postime (traj ! 0)) \<noteq> None \<and>
               date_lt (Some t) (parseTime e (postime (traj ! 0))))"
    using reach(1) by (simp add: st)
  have f2: "\<not> (parseTime e (postime (traj ! (length traj - 1))) \<noteq> None \<and>
               date_lt (parseTime e (postime (traj ! (length traj - 1)))) (Some t))"
    using reach(2) by (simp add: en)
  have r1: "\<not> (startTime sd \<noteq> None \<and> date_lt (Some t) (startTime sd))" by (rule reach(1))
  have r2: "\<not> (endTime sd \<noteq> None \<and> date_lt (endTime sd) (Some t))" by (rule reach(2))
  note bs' = bs [folded traj_def]
  show ?thesis
    unfolding getShipPositionAtTime_def
    by (simp only: m v option.case Let_def traj_def [symmetric] ne n1 r1 r2 f1 f2 if_False
        bs' prod.case pb)
qed

subsection \<open>Rounding and the sample ship\<close>

lemma rounding_points:
  "postime roundingP1 = TStr ''2024-01-01T00:00:00.000Z''"
  "postime roundingP2 = TStr ''2024-01-01T00:10:00.000Z''"
  "lngOf roundingP1 = 1 / 2 ^ 21" "lngOf roundingP2 = 1 / 2 ^ 23"
  "latOf roundingP1 = 30" "latOf roundingP2 = 31"
  "speed roundingP1 = Some 0" "speed roundingP2 = Some 5"
  by (simp_all add: roundingP1_def roundingP2_def samplePoint_sel lngOf_def latOf_def
      orNum_def)

lemma rounding_sorted: "sortByTime sampleEnv [roundingP1, roundingP2] = [roundingP1, roundingP2]"
  by (simp add: sortByTime_def rounding_points parseTime_sample_ok timeLE_def)

lemma rounding_ships:
  "ships roundingManager = [(''412000005'', shipDataOf sampleEnv [roundingP1, roundingP2])]"
  by (simp add: roundingManager_def initializeShips_def addShip_def Let_def rounding_sorted
      rounding_points truthyT_def)

lemma rounding_map_of:
  "map_of (ships (initializeShips sampleEnv (Some [(''412000005'', Some [roundingP1, roundingP2])])))
     ''412000005'' = Some (shipDataOf sampleEnv [roundingP1, roundingP2])"
  using rounding_ships by (simp add: roundingManager_def)

lemma rounding_search:
  "binarySearch sampleEnv [roundingP1, roundingP2] (Some 1704067500000) 0 (length [roundingP1, roundingP2] - 1) = (0, 1)"
  by (simp add: binarySearch.simps [of _ _ _ 0 "Suc 0"])

lemma sample_msm_time:
  "msm_time sampleEnv (TStr ''2024-01-01T00:05:00.000Z'') = Some (Some 1704067500000)"
  by (simp add: msm_time_def parseTime_sample_ok)

lemma sample_half_progress:
  "max 0 (min 1 (roundDouble (roundDouble (real_of_int (1704067500000 - 1704067200000)) /
                              roundDouble (real_of_int (1704067800000 - 1704067200000))))) =
   1 / 2"
proof -
  have a: "real_of_int (1704067500000 - 1704067200000) = 300000"
          "real_of_int (1704067800000 - 1704067200000) = 600000"
    by simp_all
  have b: "roundDouble 300000 = 300000"
    by (simp add: roundDouble_eval [of 18] roundEven_def power_int_minus)
  have c: "roundDouble 600000 = 600000"
    by (simp add: roundDouble_eval [of 19] roundEven_def power_int_minus)
  have d: "roundDouble (300000 / 600000) = 1 / 2"
    by (simp add: roundDouble_eval [of "- 1"] roundEven_def power_int_minus)
  have e: "max 0 (min 1 (1 / 2 :: real)) = 1 / 2" by simp
  show ?thesis by (simp only: a b c d e)
qed

lemma rounding_longitude:
  "roundDouble (toFixed6 (roundDouble (1 / 2 ^ 21 +
     roundDouble (roundDouble (1 / 2 ^ 23 - 1 / 2 ^ 21) * max 0 (min 1 (1 / 2)))))) = 0"
proof -
  have a: "max 0 (min 1 (1 / 2 :: real)) = 1 / 2" by simp
  have b: "roundDouble (1 / 2 ^ 23 - 1 / 2 ^ 21) = - 3 / 2 ^ 23"
    by (simp add: roundDouble_eval [of "- 22"] roundEven_def power_int_minus)
  have c: "roundDouble (- 3 / 2 ^ 23 * (1 / 2)) = - 3 / 2 ^ 24"
    by (simp add: roundDouble_eval [of "- 23"] roundEven_def power_int_minus)
  have d: "roundDouble (1 / 2 ^ 21 + - 3 / 2 ^ 24) = 5 / 2 ^ 24"
    by (simp add: roundDouble_eval [of "- 22"] roundEven_def power_int_minus)
  have e: "toFixed6 (5 / 2 ^ 24) = 0" by (simp add: toFixed6_def)
  show ?thesis by (simp only: a b c d e roundDouble_0)
qed

lemma sample_latitude:
  "roundDouble (toFixed6 (roundDouble (30 +
     roundDouble (roundDouble (31 - 30) * max 0 (min 1 (1 / 2)))))) = 61 / 2"
proof -
  have a: "max 0 (min 1 (1 / 2 :: real)) = 1 / 2" by simp
  have b: "roundDouble (31 - 30) = 1"
    by (simp add: roundDouble_eval [of 0] roundEven_def power_int_minus)
  have c: "roundDouble (1 * (1 / 2)) = 1 / 2"
    by (simp add: roundDouble_eval [of "- 1"] roundEven_def power_int_minus)
  have d: "roundDouble (30 + 1 / 2) = 61 / 2"
    by (simp add: roundDouble_eval [of 4] roundEven_def power_int_minus)
  have e: "toFixed6 (61 / 2) = 61 / 2" by (simp add: toFixed6_def)
  have f: "roundDouble (61 / 2) = 61 / 2"
    by (simp add: roundDouble_eval [of 4] roundEven_def power_int_minus)
  show ?thesis by (simp only: a b c d e f)
qed

lemma sample_longitude:
  "roundDouble (toFixed6 (roundDouble (120 +
     roundDouble (roundDouble (121 - 120) * max 0 (min 1 (1 / 2)))))) = 241 / 2"
proof -
  have a: "max 0 (min 1 (1 / 2 :: real)) = 1 / 2" by simp
  have b: "roundDouble (121 - 120) = 1"
    by (simp add: roundDouble_eval [of 0] roundEven_def power_int_minus)
  have c: "roundDouble (1 * (1 / 2)) = 1 / 2"
    by (simp add: roundDouble_eval [of "- 1"] roundEven_def power_int_minus)
  have d: "roundDouble (120 + 1 / 2) = 241 / 2"
    by (simp add: roundDouble_eval [of 6] roundEven_def power_int_minus)
  have e: "toFixed6 (241 / 2) = 241 / 2" by (simp add: toFixed6_def)
  have f: "roundDouble (241 / 2) = 241 / 2"
    by (simp add: roundDouble_eval [of 6] roundEven_def power_int_minus)
  show ?thesis by (simp only: a b c d e f)
qed

lemma rounding_position:
  "getShipPositionAtTime sampleEnv roundingManager ''412000005''
     (TStr ''2024-01-01T00:05:00.000Z'') =
   Some (interpolatePosition roundingP1 roundingP2 (Some (1 / 2)))"
proof -
  let ?sd = "shipDataOf sampleEnv [roundingP1, roundingP2]"
  have tr: "trajectory ?sd = [roundingP1, roundingP2]" by (simp add: shipDataOf_fields)
  have bs: "binarySearch sampleEnv (trajectory ?sd) (Some 1704067500000) 0
              (length (trajectory ?sd) - 1) = (0, 1)"
    unfolding tr by (rule rounding_search)
  have t1: "parseTime sampleEnv (postime (trajectory ?sd ! 0)) = Some 1704067200000"
    by (simp add: tr rounding_points parseTime_sample_ok)
  have t2: "parseTime sampleEnv (postime (trajectory ?sd ! 1)) = Some 1704067800000"
    by (simp add: tr rounding_points parseTime_sample_ok)
  have "getShipPositionAtTime sampleEnv
          (initializeShips sampleEnv (Some [(''412000005'', Some [roundingP1, roundingP2])]))
          ''412000005'' (TStr ''2024-01-01T00:05:00.000Z'') =
        Some (interpolatePosition (trajectory ?sd ! 0) (trajectory ?sd ! 1) (Some (1 / 2)))"
    unfolding sample_half_progress [symmetric]
    by (rule getShipPositionAtTime_interpolates [OF rounding_map_of sample_msm_time bs t1 t2])
       simp_all
  then show ?thesis by (simp add: tr roundingManager_def)
qed

lemma rounding_position_fields:
  "pos_lng (interpolatePosition roundingP1 roundingP2 (Some (1 / 2))) = Some 0"
  "pos_lat (interpolatePosition roundingP1 roundingP2 (Some (1 / 2))) = Some (61 / 2)"
  "pos_speed (interpolatePosition roundingP1 roundingP2 (Some (1 / 2))) = 5"
proof -
  show "pos_lng (interpolatePosition roundingP1 roundingP2 (Some (1 / 2))) = Some 0"
    by (simp only: interpolatePosition_coords rounding_points rounding_longitude)
  show "pos_lat (interpolatePosition roundingP1 roundingP2 (Some (1 / 2))) = Some (61 / 2)"
    by (simp only: interpolatePosition_coords rounding_points sample_latitude)
  show "pos_speed (interpolatePosition roundingP1 roundingP2 (Some (1 / 2))) = 5"
    by (simp add: interpolatePosition_def Let_def rounding_points orNum_def)
qed

lemma tie_points:
  "postime tieP1 = TDate (Some 1704067200000)" "postime tieP2 = TDate (Some 1704069200000)"
  "lngOf tieP1 = 120" "lngOf tieP2 = 121" "latOf tieP1 = 30" "latOf tieP2 = 31"
  by (simp_all add: tieP1_def tieP2_def samplePoint_sel samplePoint_coords)

lemma parseTime_TDate: "parseTime e (TDate d) = d"
  by (simp add: parseTime_def)

lemma tie_sorted: "sortByTime sampleEnv [tieP1, tieP2] = [tieP1, tieP2]"
  by (simp add: sortByTime_def tie_points parseTime_TDate timeLE_def)

lemma tie_map_of:
  "map_of (ships (initializeShips sampleEnv (Some [(''412000007'', Some [tieP1, tieP2])])))
     ''412000007'' = Some (shipDataOf sampleEnv [tieP1, tieP2])"
  by (simp add: initializeShips_def addShip_def Let_def tie_sorted tie_points truthyT_def)

lemma tie_search:
  "binarySearch sampleEnv [tieP1, tieP2] (Some 1704067200001) 0 (length [tieP1, tieP2] - 1) =
   (0, 1)"
  by (simp add: binarySearch.simps [of _ _ _ 0 "Suc 0"])

lemma tie_progress:
  "max 0 (min 1 (roundDouble (roundDouble (real_of_int (1704067200001 - 1704067200000)) /
                              roundDouble (real_of_int (1704069200000 - 1704067200000))))) =
   4722366482869645 / 2 ^ 73"
proof -
  have a: "real_of_int (1704067200001 - 1704067200000) = 1"
          "real_of_int (1704069200000 - 1704067200000) = 2000000"
    by simp_all
  have b: "roundDouble 1 = 1"
    by (simp add: roundDouble_eval [of 0] roundEven_def power_int_minus)
  have c: "roundDouble 2000000 = 2000000"
    by (simp add: roundDouble_eval [of 20] roundEven_def power_int_minus)
  have d: "roundDouble (1 / 2000000) = 4722366482869645 / 2 ^ 73"
    by (simp add: roundDouble_eval [of "- 21"] roundEven_def power_int_minus)
  have e: "max 0 (min 1 (4722366482869645 / 2 ^ 73 :: real)) = 4722366482869645 / 2 ^ 73"
    by simp
  show ?thesis by (simp only: a b c d e)
qed

lemma tie_longitude:
  "roundDouble (toFixed6 (roundDouble (120 +
     roundDouble (roundDouble (121 - 120) * max 0 (min 1 (4722366482869645 / 2 ^ 73)))))) =
   120"
proof -
  have a: "max 0 (min 1 (4722366482869645 / 2 ^ 73 :: real)) = 4722366482869645 / 2 ^ 73"
    by simp
  have b: "roundDouble (121 - 120) = 1"
    by (simp add: roundDouble_eval [of 0] roundEven_def power_int_minus)
  have c: "roundDouble (1 * (4722366482869645 / 2 ^ 73)) = 4722366482869645 / 2 ^ 73"
    by (simp add: roundDouble_eval [of "- 21"] roundEven_def power_int_minus)
  have d: "roundDouble (120 + 4722366482869645 / 2 ^ 73) = 2111062334126013 / 2 ^ 44"
    by (simp add: roundDouble_eval [of 6] roundEven_def power_int_minus)
  have e: "toFixed6 (2111062334126013 / 2 ^ 44) = 120" by (simp add: toFixed6_def)
  have f: "roundDouble 120 = 120"
    by (simp add: roundDouble_eval [of 6] roundEven_def power_int_minus)
  show ?thesis by (simp only: a b c d e f)
qed

lemma tie_latitude:
  "roundDouble (toFixed6 (roundDouble (30 +
     roundDouble (roundDouble (31 - 30) * max 0 (min 1 (4722366482869645 / 2 ^ 73)))))) =
   30"
proof -
  have a: "max 0 (min 1 (4722366482869645 / 2 ^ 73 :: real)) = 4722366482869645 / 2 ^ 73"
    by simp
  have b: "roundDouble (31 - 30) = 1"
    by (simp add: roundDouble_eval [of 0] roundEven_def power_int_minus)
  have c: "roundDouble (1 * (4722366482869645 / 2 ^ 73)) = 4722366482869645 / 2 ^ 73"
    by (simp add: roundDouble_eval [of "- 21"] roundEven_def power_int_minus)
  have d: "roundDouble (30 + 4722366482869645 / 2 ^ 73) = 527765590128573 / 2 ^ 44"
    by (simp add: roundDouble_eval [of 4] roundEven_def power_int_minus)
  have e: "toFixed6 (527765590128573 / 2 ^ 44) = 30" by (simp add: toFixed6_def)
  have f: "roundDouble 30 = 30"
    by (simp add: roundDouble_eval [of 4] roundEven_def power_int_minus)
  show ?thesis by (simp only: a b c d e f)
qed

text \<open>
  At a tie of the decimal rounding the double arithmetic decides. One millisecond after the
  first point of the ship that sails from \<open>(120, 30)\<close> to \<open>(121, 31)\<close> in 2000 seconds, the
  sums computed in doubles lie just below \<open>120.0000005\<close> and \<open>30.0000005\<close>, so the
  position returned is \<open>(120, 30)\<close>, where rounding the exact interpolation would give
  \<open>(120.000001, 30.000001)\<close>.
\<close>

lemma tie_position:
  "map_option pos_lng (getShipPositionAtTime sampleEnv tieManager ''412000007''
     (TDate (Some 1704067200001))) = Some (Some 120) \<and>
   map_option pos_lat (getShipPositionAtTime sampleEnv tieManager ''412000007''
     (TDate (Some 1704067200001))) = Some (Some 30) \<and>
   toFixed6 (120 + (121 - 120) * (1 / 2000000)) = 120000001 / 1000000 \<and>
   toFixed6 (30 + (31 - 30) * (1 / 2000000)) = 30000001 / 1000000"
proof -
  let ?sd = "shipDataOf sampleEnv [tieP1, tieP2]"
  let ?q = "4722366482869645 / 2 ^ 73 :: real"
  have tr: "trajectory ?sd = [tieP1, tieP2]" by (simp add: shipDataOf_fields)
  have v: "msm_time sampleEnv (TDate (Some 1704067200001)) = Some (Some 1704067200001)"
    by (simp add: msm_time_def)
  have bs: "binarySearch sampleEnv (trajectory ?sd) (Some 1704067200001) 0
              (length (trajectory ?sd) - 1) = (0, 1)"
    unfolding tr by (rule tie_search)
  have t1: "parseTime sampleEnv (postime (trajectory ?sd ! 0)) = Some 1704067200000"
    by (simp add: tr tie_points parseTime_TDate)
  have t2: "parseTime sampleEnv (postime (trajectory ?sd ! 1)) = Some 1704069200000"
    by (simp add: tr tie_points parseTime_TDate)
  have "getShipPositionAtTime sampleEnv
          (initializeShips sampleEnv (Some [(''412000007'', Some [tieP1, tieP2])]))
          ''412000007'' (TDate (Some 1704067200001)) =
        Some (interpolatePosition (trajectory ?sd ! 0) (trajectory ?sd ! 1) (Some ?q))"
    unfolding tie_progress [symmetric]
    by (rule getShipPositionAtTime_interpolates [OF tie_map_of v bs t1 t2]) simp_all
  then have g: "getShipPositionAtTime sampleEnv tieManager ''412000007''
                  (TDate (Some 1704067200001)) =
                Some (interpolatePosition tieP1 tieP2 (Some ?q))"
    by (simp add: tr tieManager_def)
  have c: "pos_lng (interpolatePosition tieP1 tieP2 (Some ?q)) = Some 120"
          "pos_lat (interpolatePosition tieP1 tieP2 (Some ?q)) = Some 30"
    by (simp_all only: interpolatePosition_coords tie_points tie_longitude tie_latitude)
  have r: "toFixed6 (120 + (121 - 120) * (1 / 2000000)) = 120000001 / 1000000"
          "toFixed6 (30 + (31 - 30) * (1 / 2000000)) = 30000001 / 1000000"
    by (simp_all add: toFixed6_def)
  show ?thesis unfolding g using c r by simp
qed

lemma interpolatePosition_attributes:
  "pos_speed (interpolatePosition p1 p2 pr) = orNum (speed p1) (orNum (speed p2) 0)"
  "pos_draught (interpolatePosition p1 p2 pr) =
     orNumNull (draught p1) (orNumNull (draught p2) None)"
  "pos_status (interpolatePosition p1 p2 pr) =
     orStrNull (status p1) (orStrNull (status p2) None)"
  "pos_dest (interpolatePosition p1 p2 pr) = orStrNull (dest p1) (orStrNull (dest p2) None)"
  "pos_eta (interpolatePosition p1 p2 pr) = orStrNull (eta p1) (orStrNull (eta p2) None)"
  by (simp_all add: interpolatePosition_def Let_def)

lemma progress_shift:
  fixes a b q P :: real
  assumes "\<bar>a\<bar> \<le> 180" and "\<bar>b\<bar> \<le> 180" and "\<bar>q - P\<bar> \<le> 1 / 4000000000000"
      and "\<bar>x - (a + (b - a) * q)\<bar> \<le> 1 / 2000000 + 1 / 2000000000000"
  shows "\<bar>x - (a + (b - a) * P)\<bar> \<le> 1 / 1000000"
proof -
  have "\<bar>(b - a) * q - (b - a) * P\<bar> = \<bar>b - a\<bar> * \<bar>q - P\<bar>"
    by (simp add: abs_mult right_diff_distrib [symmetric])
  also have "\<dots> \<le> 360 * (1 / 4000000000000)"
    using assms(1,2,3) by (intro mult_mono) simp_all
  finally show ?thesis using assms(4) by linarith
qed

subsection \<open>Interpolated positions\<close>

text \<open>
  \<^bold>\<open>C3\<close> as the claim states it fails: halfway between the two points of the sample ship
  the returned longitude is \<open>0\<close>, not the interpolated value \<open>5 / 2\<^sup>2\<^sup>4\<close> (about
  \<open>0.0000003\<close>), and the returned speed is the second point's \<open>5\<close> although the first
  point has the speed \<open>0\<close>.
\<close>

theorem C3_rounding_and_falsy_fallback_counterexample:
  "map_option pos_lng (getShipPositionAtTime sampleEnv roundingManager ''412000005''
       (TStr ''2024-01-01T00:05:00.000Z'')) \<noteq>
     Some (Some (lngOf roundingP1 + (lngOf roundingP2 - lngOf roundingP1) *
                   (real_of_int (1704067500000 - 1704067200000) /
                    real_of_int (1704067800000 - 1704067200000)))) \<and>
   speed roundingP1 = Some 0 \<and>
   map_option pos_speed (getShipPositionAtTime sampleEnv roundingManager ''412000005''
       (TStr ''2024-01-01T00:05:00.000Z'')) = Some 5"
  by (simp add: rounding_position rounding_position_fields rounding_points)

text \<open>
  \<^bold>\<open>C3\<close>, amended. For a loaded ship and a time \<open>t\<close> strictly between the times of the
  pair \<open>(p1, p2)\<close> that the binary search finds, both points having a longitude within
  \<open>[-180, 180]\<close> and a latitude within \<open>[-90, 90]\<close>, the pair is consecutive and the
  returned longitude and latitude are numbers within \<open>10\<^sup>-\<^sup>6\<close> of the linear interpolations
  at \<open>progress = (t - p1.time) / (p2.time - p1.time)\<close>, which lies strictly between 0 and
  1; heading and course are \<open>bearing(p1, p2)\<close>; speed, draught, status, destination and ETA
  are \<open>p1\<close>'s value when it is truthy, else \<open>p2\<close>'s when that is truthy, else \<open>0\<close> for the
  speed and \<^verbatim>\<open>null\<close> for the others.
\<close>

theorem C3_interpolation_within_rounding:
  assumes "map_of (ships (initializeShips e shipGroups)) mmsi = Some sd"
      and "msm_time e v = Some (Some t)"
      and "binarySearch e (trajectory sd) (Some t) 0 (length (trajectory sd) - 1) = (l, r)"
      and "parseTime e (postime (trajectory sd ! l)) = Some t1"
      and "parseTime e (postime (trajectory sd ! r)) = Some t2"
      and "t1 < t" and "t < t2"
      and "\<bar>lngOf (trajectory sd ! l)\<bar> \<le> 180" and "\<bar>lngOf (trajectory sd ! r)\<bar> \<le> 180"
      and "\<bar>latOf (trajectory sd ! l)\<bar> \<le> 90" and "\<bar>latOf (trajectory sd ! r)\<bar> \<le> 90"
  shows "\<exists>pos x y. getShipPositionAtTime e (initializeShips e shipGroups) mmsi v = Some pos \<and>
           (let p1 = trajectory sd ! l; p2 = trajectory sd ! r;
                progress = real_of_int (t - t1) / real_of_int (t2 - t1)
            in r = Suc l \<and> r < length (trajectory sd) \<and> 0 < progress \<and> progress < 1 \<and>
               pos_lng pos = Some x \<and> pos_lat pos = Some y \<and>
               \<bar>x - (lngOf p1 + (lngOf p2 - lngOf p1) * progress)\<bar> \<le> 1 / 1000000 \<and>
               \<bar>y - (latOf p1 + (latOf p2 - latOf p1) * progress)\<bar> \<le> 1 / 1000000 \<and>
               hdg pos = calculateDirection p1 p2 \<and> cog pos = calculateDirection p1 p2 \<and>
               pos_speed pos = orNum (speed p1) (orNum (speed p2) 0) \<and>
               pos_draught pos = orNumNull (draught p1) (orNumNull (draught p2) None) \<and>
               pos_status pos = orStrNull (status p1) (orStrNull (status p2) None) \<and>
               pos_dest pos = orStrNull (dest p1) (orStrNull (dest p2) None) \<and>
               pos_eta pos = orStrNull (eta p1) (orStrNull (eta p2) None))"
proof -
  define P where "P = real_of_int (t - t1) / real_of_int (t2 - t1)"
  define q where "q = max 0 (min 1 (roundDouble (roundDouble (real_of_int (t - t1)) /
                                                 roundDouble (real_of_int (t2 - t1)))))"
  define pos where
    "pos = interpolatePosition (trajectory sd ! l) (trajectory sd ! r) (Some q)"
  have d: "0 < real_of_int (t2 - t1)" using assms(6,7) by simp
  have p0: "0 < P" unfolding P_def using assms(6,7) by simp
  have p1: "P < 1" unfolding P_def using assms(6,7) d by (simp add: divide_less_eq_1)
  have "l < r"
  proof (rule ccontr)
    assume "\<not> l < r"
    have "0 < length (trajectory sd) - 1 \<or> (l = 0 \<and> r = 0)"
      using assms(3)
      by (cases "0 < length (trajectory sd) - 1")
         (simp_all add: binarySearch.simps [of e "trajectory sd" "Some t" 0 0])
    then show False
    proof
      assume "0 < length (trajectory sd) - 1"
      from binarySearch_bounds [OF this assms(3)] \<open>\<not> l < r\<close> show False by simp
    next
      assume "l = 0 \<and> r = 0"
      with assms(4,5,6,7) show False by simp
    qed
  qed
  then have n: "0 < length (trajectory sd) - 1"
    using assms(3)
    by (cases "0 < length (trajectory sd) - 1")
       (simp_all add: binarySearch.simps [of e "trajectory sd" "Some t" 0 0])
  from binarySearch_bounds [OF n assms(3)]
  have b: "r = Suc l" "r \<le> length (trajectory sd) - 1" by blast+
  then have rl: "r < length (trajectory sd)" using n by linarith
  have g: "getShipPositionAtTime e (initializeShips e shipGroups) mmsi v = Some pos"
    unfolding pos_def q_def by (rule getShipPositionAtTime_interpolates [OF assms(1-7)])
  have qe: "\<bar>q - P\<bar> \<le> 1 / 4000000000000"
    unfolding q_def P_def using assms(6,7) by (rule progress_error(2))
  have cq: "max 0 (min 1 q) = q" unfolding q_def by simp
  from interpolatePosition_near [OF assms(8-11), of q] obtain x y where
    xy: "pos_lng pos = Some x" "pos_lat pos = Some y"
    and ex: "\<bar>x - (lngOf (trajectory sd ! l) +
                (lngOf (trajectory sd ! r) - lngOf (trajectory sd ! l)) * q)\<bar>
              \<le> 1 / 2000000 + 1 / 2000000000000"
    and ey: "\<bar>y - (latOf (trajectory sd ! l) +
                (latOf (trajectory sd ! r) - latOf (trajectory sd ! l)) * q)\<bar>
              \<le> 1 / 2000000 + 1 / 2000000000000"
    unfolding cq pos_def [symmetric] by blast
  have la: "\<bar>latOf (trajectory sd ! l)\<bar> \<le> 180" "\<bar>latOf (trajectory sd ! r)\<bar> \<le> 180"
    using assms(10,11) by linarith+
  note ex' = progress_shift [OF assms(8,9) qe ex]
  note ey' = progress_shift [OF la qe ey]
  have at: "hdg pos = calculateDirection (trajectory sd ! l) (trajectory sd ! r)"
    "cog pos = calculateDirection (trajectory sd ! l) (trajectory sd ! r)"
    unfolding pos_def by (rule interpolatePosition_coords)+
  note attrs = interpolatePosition_attributes
    [of "trajectory sd ! l" "trajectory sd ! r" "Some q", folded pos_def]
  have "r = Suc l \<and> r < length (trajectory sd) \<and> 0 < P \<and> P < 1 \<and>
        pos_lng pos = Some x \<and> pos_lat pos = Some y \<and>
        \<bar>x - (lngOf (trajectory sd ! l) +
              (lngOf (trajectory sd ! r) - lngOf (trajectory sd ! l)) * P)\<bar> \<le> 1 / 1000000 \<and>
        \<bar>y - (latOf (trajectory sd ! l) +
              (latOf (trajectory sd ! r) - latOf (trajectory sd ! l)) * P)\<bar> \<le> 1 / 1000000"
    using b(1) rl p0 p1 xy ex' ey' by blast
  then show ?thesis
    unfolding Let_def P_def [symmetric]
    using g at attrs by blast
qed

theorem C3_interpolation_within_rounding_witness:
  "map_of (ships (initializeShips sampleEnv
       (Some [(''412000005'', Some [roundingP1, roundingP2])]))) ''412000005'' =
     Some (shipDataOf sampleEnv [roundingP1, roundingP2]) \<and>
   trajectory (shipDataOf sampleEnv [roundingP1, roundingP2]) = [roundingP1, roundingP2] \<and>
   msm_time sampleEnv (TStr ''2024-01-01T00:05:00.000Z'') = Some (Some 1704067500000) \<and>
   binarySearch sampleEnv [roundingP1, roundingP2] (Some 1704067500000) 0 1 = (0, 1) \<and>
   parseTime sampleEnv (postime roundingP1) = Some 1704067200000 \<and>
   parseTime sampleEnv (postime roundingP2) = Some 1704067800000 \<and>
   \<bar>lngOf roundingP1\<bar> \<le> 180 \<and> \<bar>lngOf roundingP2\<bar> \<le> 180 \<and>
   \<bar>latOf roundingP1\<bar> \<le> 90 \<and> \<bar>latOf roundingP2\<bar> \<le> 90 \<and>
   (\<exists>pos x y. getShipPositionAtTime sampleEnv
             (initializeShips sampleEnv (Some [(''412000005'', Some [roundingP1, roundingP2])]))
             ''412000005'' (TStr ''2024-01-01T00:05:00.000Z'') = Some pos \<and>
          pos_lng pos = Some x \<and> pos_lat pos = Some y \<and>
          \<bar>x - 5 / 2 ^ 24\<bar> \<le> 1 / 1000000 \<and> \<bar>y - 61 / 2\<bar> \<le> 1 / 1000000 \<and>
          hdg pos = calculateDirection roundingP1 roundingP2 \<and> pos_speed pos = 5 \<and>
          pos_draught pos = None)"
proof -
  let ?sd = "shipDataOf sampleEnv [roundingP1, roundingP2]"
  have tr: "trajectory ?sd = [roundingP1, roundingP2]" by (simp add: shipDataOf_fields)
  have bs: "binarySearch sampleEnv (trajectory ?sd) (Some 1704067500000) 0
              (length (trajectory ?sd) - 1) = (0, 1)"
    unfolding tr by (rule rounding_search)
  have t1: "parseTime sampleEnv (postime (trajectory ?sd ! 0)) = Some 1704067200000"
    by (simp add: tr rounding_points parseTime_sample_ok)
  have t2: "parseTime sampleEnv (postime (trajectory ?sd ! 1)) = Some 1704067800000"
    by (simp add: tr rounding_points parseTime_sample_ok)
  have lt: "(1704067200000 :: int) < 1704067500000" "(1704067500000 :: int) < 1704067800000"
    by simp_all
  have geo: "\<bar>lngOf (trajectory ?sd ! 0)\<bar> \<le> 180" "\<bar>lngOf (trajectory ?sd ! 1)\<bar> \<le> 180"
    "\<bar>latOf (trajectory ?sd ! 0)\<bar> \<le> 90" "\<bar>latOf (trajectory ?sd ! 1)\<bar> \<le> 90"
    by (simp_all add: tr rounding_points)
  have dr: "draught roundingP1 = None" "draught roundingP2 = None"
    by (simp_all add: roundingP1_def roundingP2_def samplePoint_sel)
  from C3_interpolation_within_rounding
         [OF rounding_map_of sample_msm_time bs t1 t2 lt geo]
  obtain pos x y where
    "getShipPositionAtTime sampleEnv
       (initializeShips sampleEnv (Some [(''412000005'', Some [roundingP1, roundingP2])]))
       ''412000005'' (TStr ''2024-01-01T00:05:00.000Z'') = Some pos"
    "pos_lng pos = Some x" "pos_lat pos = Some y"
    "\<bar>x - 5 / 2 ^ 24\<bar> \<le> 1 / 1000000" "\<bar>y - 61 / 2\<bar> \<le> 1 / 1000000"
    "hdg pos = calculateDirection roundingP1 roundingP2" "pos_speed pos = 5"
    "pos_draught pos = None"
    by (auto simp: Let_def tr rounding_points dr orNum_def orNumNull_def truthyN_def)
  then have "\<exists>pos x y. getShipPositionAtTime sampleEnv
             (initializeShips sampleEnv (Some [(''412000005'', Some [roundingP1, roundingP2])]))
             ''412000005'' (TStr ''2024-01-01T00:05:00.000Z'') = Some pos \<and>
          pos_lng pos = Some x \<and> pos_lat pos = Some y \<and>
          \<bar>x - 5 / 2 ^ 24\<bar> \<le> 1 / 1000000 \<and> \<bar>y - 61 / 2\<bar> \<le> 1 / 1000000 \<and>
          hdg pos = calculateDirection roundingP1 roundingP2 \<and> pos_speed pos = 5 \<and>
          pos_draught pos = None"
    by blast
  then show ?thesis
    using rounding_map_of tr sample_msm_time bs t1 t2 geo
    by (simp add: tr)
qed

text \<open>
  \<^bold>\<open>C4\<close> as the claim states it fails: the sample ship has two timestamped points, the
  query time lies inside its window, and the returned longitude \<open>0\<close> is smaller than the
  longitude of both points, so it is no convex combination of them.
\<close>

theorem C4_rounded_off_segment_counterexample:
  "map_option startTime (getShip roundingManager ''412000005'') = Some (Some 1704067200000) \<and>
   map_option endTime (getShip roundingManager ''412000005'') = Some (Some 1704067800000) \<and>
   map_option trajectory (getShip roundingManager ''412000005'') =
     Some [roundingP1, roundingP2] \<and>
   msm_time sampleEnv (TStr ''2024-01-01T00:05:00.000Z'') = Some (Some 1704067500000) \<and>
   map_option pos_lng (getShipPositionAtTime sampleEnv roundingManager ''412000005''
       (TStr ''2024-01-01T00:05:00.000Z'')) = Some (Some 0) \<and>
   0 < lngOf roundingP1 \<and> 0 < lngOf roundingP2"
  by (simp add: getShip_def rounding_ships shipDataOf_fields timeOf_def rounding_points
      parseTime_sample_ok sample_msm_time rounding_position rounding_position_fields)

text \<open>
  \<^bold>\<open>C4\<close>, amended. For a ship with at least two points, all of them with a longitude
  within \<open>[-180, 180]\<close> and a latitude within \<open>[-90, 90]\<close>, and a valid query time, the
  position query returns a position whose longitude and latitude are numbers, each within
  \<open>10\<^sup>-\<^sup>6\<close> of the coordinate of one point of the straight segment between two
  consecutive trajectory points.
\<close>

theorem C4_within_rounding_of_segment:
  assumes "map_of (ships m) mmsi = Some sd"
      and "2 \<le> length (trajectory sd)"
      and "msm_time e v = Some (Some t)"
      and "list_all (\<lambda>p. \<bar>lngOf p\<bar> \<le> 180 \<and> \<bar>latOf p\<bar> \<le> 90) (trajectory sd)"
  shows "\<exists>pos i f x y. getShipPositionAtTime e m mmsi v = Some pos \<and>
           Suc i < length (trajectory sd) \<and> 0 \<le> f \<and> f \<le> 1 \<and>
           pos_lng pos = Some x \<and> pos_lat pos = Some y \<and>
           \<bar>x - segLng (trajectory sd) i f\<bar> \<le> 1 / 1000000 \<and>
           \<bar>y - segLat (trajectory sd) i f\<bar> \<le> 1 / 1000000"
proof -
  have "\<forall>p\<in>set (trajectory sd). \<bar>lngOf p\<bar> \<le> 180 \<and> \<bar>latOf p\<bar> \<le> 90"
    using assms(4) by (simp add: list_all_iff)
  from getShipPositionAtTime_nearSegment [OF assms(1-3) this] obtain pos where
    pos: "getShipPositionAtTime e m mmsi v = Some pos" "nearSegment (trajectory sd) pos"
    by blast
  from pos(2) pos(1) show ?thesis unfolding nearSegment_def by blast
qed

theorem C4_within_rounding_of_segment_witness:
  "map_of (ships roundingManager) ''412000005'' =
     Some (shipDataOf sampleEnv [roundingP1, roundingP2]) \<and>
   2 \<le> length (trajectory (shipDataOf sampleEnv [roundingP1, roundingP2])) \<and>
   msm_time sampleEnv (TStr ''2024-01-01T00:05:00.000Z'') = Some (Some 1704067500000) \<and>
   list_all (\<lambda>p. \<bar>lngOf p\<bar> \<le> 180 \<and> \<bar>latOf p\<bar> \<le> 90)
     (trajectory (shipDataOf sampleEnv [roundingP1, roundingP2])) \<and>
   (\<exists>pos i f x y. getShipPositionAtTime sampleEnv roundingManager ''412000005''
             (TStr ''2024-01-01T00:05:00.000Z'') = Some pos \<and>
          Suc i < length [roundingP1, roundingP2] \<and> 0 \<le> f \<and> f \<le> 1 \<and>
          pos_lng pos = Some x \<and> pos_lat pos = Some y \<and>
          \<bar>x - segLng [roundingP1, roundingP2] i f\<bar> \<le> 1 / 1000000 \<and>
          \<bar>y - segLat [roundingP1, roundingP2] i f\<bar> \<le> 1 / 1000000)"
proof -
  let ?sd = "shipDataOf sampleEnv [roundingP1, roundingP2]"
  have tr: "trajectory ?sd = [roundingP1, roundingP2]" by (simp add: shipDataOf_fields)
  have m: "map_of (ships roundingManager) ''412000005'' = Some ?sd"
    by (simp add: rounding_ships)
  have n: "2 \<le> length (trajectory ?sd)" by (simp add: tr)
  have geo: "list_all (\<lambda>p. \<bar>lngOf p\<bar> \<le> 180 \<and> \<bar>latOf p\<bar> \<le> 90) (trajectory ?sd)"
    by (simp add: tr rounding_points)
  from C4_within_rounding_of_segment [OF m n sample_msm_time geo]
  have "\<exists>pos i f x y. getShipPositionAtTime sampleEnv roundingManager ''412000005''
             (TStr ''2024-01-01T00:05:00.000Z'') = Some pos \<and>
          Suc i < length [roundingP1, roundingP2] \<and> 0 \<le> f \<and> f \<le> 1 \<and>
          pos_lng pos = Some x \<and> pos_lat pos = Some y \<and>
          \<bar>x - segLng [roundingP1, roundingP2] i f\<bar> \<le> 1 / 1000000 \<and>
          \<bar>y - segLat [roundingP1, roundingP2] i f\<bar> \<le> 1 / 1000000"
    unfolding tr .
  with m n sample_msm_time geo show ?thesis by blast
qed

subsection \<open>Queries outside the window of a ship\<close>

lemma getShipPositionAtTime_before_start:
  assumes "map_of (ships m) mmsi = Some sd" and "trajectory sd \<noteq> []"
      and "msm_time e v = Some (Some t)" and "startTime sd = Some s" and "t < s"
  shows "getShipPositionAtTime e m mmsi v = Some (formatPosition (trajectory sd ! 0))"
  using assms by (simp add: getShipPositionAtTime_def date_lt_def)

lemma getShipPositionAtTime_after_end:
  assumes "map_of (ships m) mmsi = Some sd" and "trajectory sd \<noteq> []"
      and "msm_time e v = Some (Some t)" and "endTime sd = Some en" and "en < t"
      and "startTime sd = Some s" and "s \<le> t"
  shows "getShipPositionAtTime e m mmsi v =
           Some (formatPosition (trajectory sd ! (length (trajectory sd) - 1)))"
  using assms by (simp add: getShipPositionAtTime_def date_lt_def Let_def)

lemma sample_trim2:
  "trim ''2023-12-31T23:00:00.000Z'' = ''2023-12-31T23:00:00.000Z''"
  "trim ''2024-01-01T01:10:00.000Z'' = ''2024-01-01T01:10:00.000Z''"
  by (rule trim_id; simp add: isSpace_def)+

lemma utcFullYear_samples2:
  "utcFullYear 1704063600000 = 2023" "utcFullYear 1704071400000 = 2024"
  by code_simp+

lemma sample_msm_time2:
  "msm_time sampleEnv (TStr ''2023-12-31T23:00:00.000Z'') = Some (Some 1704063600000)"
  "msm_time sampleEnv (TStr ''2024-01-01T01:10:00.000Z'') = Some (Some 1704071400000)"
  by (simp_all add: msm_time_def parseTime_def Let_def sample_trim2 sampleEnv_def
      sampleNewDate_def utcFullYear_samples2)

lemma heading_points:
  "postime headingP1 = TStr ''2024-01-01T00:00:00.000Z''"
  "postime headingP2 = TStr ''2024-01-01T00:10:00.000Z''"
  by (simp_all add: headingP1_def headingP2_def samplePoint_sel)

lemma heading_sorted: "sortByTime sampleEnv [headingP1, headingP2] = [headingP1, headingP2]"
  by (simp add: sortByTime_def heading_points parseTime_sample_ok timeLE_def)

lemma heading_ships:
  "ships headingManager = [(''412000006'', shipDataOf sampleEnv [headingP1, headingP2])]"
  by (simp add: headingManager_def initializeShips_def addShip_def Let_def heading_sorted
      heading_points truthyT_def)

lemma heading_window:
  "startTime (shipDataOf sampleEnv [headingP1, headingP2]) = Some 1704067200000"
  "endTime (shipDataOf sampleEnv [headingP1, headingP2]) = Some 1704067800000"
  by (simp_all add: shipDataOf_fields timeOf_def heading_points parseTime_sample_ok)

text \<open>
  \<^bold>\<open>C2.\<close> The claim asks for the heading \<open>bearing(first, second)\<close> before the first
  timestamped point and \<open>bearing(secondToLast, last)\<close> after the last one. The source has
  both branches, but the two range checks in front of them return
  \<^verbatim>\<open>formatPosition\<close> of the boundary point, whose heading is \<open>0\<close>, whenever the ship
  has a start or an end time. For the sample ship that sails due east (bearing \<open>90\<close>) the
  query returns the first point one hour before its start and the last point one hour
  after its end, both with heading \<open>0\<close>.
\<close>

theorem C2_heading_outside_window_is_zero:
  "getShipPositionAtTime sampleEnv headingManager ''412000006''
     (TStr ''2023-12-31T23:00:00.000Z'') = Some (formatPosition headingP1) \<and>
   getShipPositionAtTime sampleEnv headingManager ''412000006''
     (TStr ''2024-01-01T01:10:00.000Z'') = Some (formatPosition headingP2) \<and>
   hdg (formatPosition headingP1) = 0 \<and> hdg (formatPosition headingP2) = 0 \<and>
   calculateDirection headingP1 headingP2 = 90"
proof -
  let ?sd = "shipDataOf sampleEnv [headingP1, headingP2]"
  have m: "map_of (ships headingManager) ''412000006'' = Some ?sd"
    by (simp add: heading_ships)
  have tr: "trajectory ?sd = [headingP1, headingP2]" by (simp add: shipDataOf_fields)
  then have ne: "trajectory ?sd \<noteq> []" by simp
  have a: "getShipPositionAtTime sampleEnv headingManager ''412000006''
     (TStr ''2023-12-31T23:00:00.000Z'') = Some (formatPosition headingP1)"
    using getShipPositionAtTime_before_start [OF m ne sample_msm_time2(1) heading_window(1)]
    by (simp add: tr)
  have "(1704067200000 :: int) \<le> 1704071400000" by simp
  from getShipPositionAtTime_after_end
         [OF m ne sample_msm_time2(2) heading_window(2) _ heading_window(1) this]
  have b: "getShipPositionAtTime sampleEnv headingManager ''412000006''
     (TStr ''2024-01-01T01:10:00.000Z'') = Some (formatPosition headingP2)"
    by (simp add: tr)
  have c: "calculateDirection headingP1 headingP2 = 90"
    unfolding headingP1_def headingP2_def by (rule calculateDirection_east)
  from a b c show ?thesis by (simp add: formatPosition_coords)
qed

section \<open>Properties of the snapshot\<close>

lemma snapshotStep_dom:
  "dom (snapshotStep e msm v mmsi sp) =
     (if mmsi \<noteq> [] \<and>
         (\<exists>pos. getShipPositionAtTime e msm mmsi v = Some pos \<and>
            (truthyN (pos_lng pos) \<or> truthyN (pos_lon pos)) \<and> truthyN (pos_lat pos)) \<and>
         getShip msm mmsi \<noteq> None
      then insert mmsi (dom sp) else dom sp)"
  by (cases "getShipPositionAtTime e msm mmsi v"; cases "getShip msm mmsi")
     (auto simp: snapshotStep_def)

lemma fold_dom_filter:
  assumes "\<And>k sp. dom (step k sp) = (if P k then insert k (dom sp) else dom sp)"
  shows "dom (fold step xs acc) = dom acc \<union> {k \<in> set xs. P k}"
proof (induction xs arbitrary: acc)
  case Nil
  then show ?case by simp
next
  case (Cons x xs)
  have "dom (fold step (x # xs) acc) = dom (step x acc) \<union> {k \<in> set xs. P k}"
    by (simp add: Cons.IH)
  also have "\<dots> = dom acc \<union> {k \<in> set (x # xs). P k}"
    by (auto simp: assms)
  finally show ?case .
qed

lemma fold_snapshotStep_dom:
  "dom (fold (snapshotStep e msm v) xs acc) =
     dom acc \<union>
     {mmsi \<in> set xs. mmsi \<noteq> [] \<and>
         (\<exists>pos. getShipPositionAtTime e msm mmsi v = Some pos \<and>
            (truthyN (pos_lng pos) \<or> truthyN (pos_lon pos)) \<and> truthyN (pos_lat pos)) \<and>
         getShip msm mmsi \<noteq> None}"
  by (rule fold_dom_filter) (rule snapshotStep_dom)

lemma getShipPositionAtTime_known:
  "getShipPositionAtTime e msm mmsi v = Some pos \<Longrightarrow> getShip msm mmsi \<noteq> None"
  by (cases "map_of (ships msm) mmsi") (simp_all add: getShipPositionAtTime_def getShip_def)

lemma updateAllShipsPositions_dom:
  "dom (updateAllShipsPositions e tsc msm v) =
     {mmsi \<in> set (getActiveShipsAtTime e tsc v). mmsi \<noteq> [] \<and>
         (\<exists>pos. getShipPositionAtTime e msm mmsi v = Some pos \<and>
            (truthyN (pos_lng pos) \<or> truthyN (pos_lon pos)) \<and> truthyN (pos_lat pos))}"
  unfolding updateAllShipsPositions_def Let_def fold_snapshotStep_dom
  using getShipPositionAtTime_known by auto

lemma sample_active_tick:
  "getActiveShipsAtTime sampleEnv sampleController (TDate (Some 1704067500000)) =
     [''412000001'', ''412000002'']"
  by (simp add: getActiveShipsAtTime_def tsc_time_def sample_tsc_ships date_lt_def)

lemma sample_position_equator:
  "getShipPositionAtTime sampleEnv sampleManager ''412000002'' (TDate (Some 1704067500000)) =
     Some (setDirection
             (calculateDirection
                (samplePoint (TStr ''2024-01-01T00:05:00.000Z'') (Some 10) (Some 0))
                (samplePoint TNull (Some 11) (Some 1)))
             (formatPosition
                (samplePoint (TStr ''2024-01-01T00:05:00.000Z'') (Some 10) (Some 0))))"
  by (simp add: getShipPositionAtTime_def sample_ships msm_time_def date_lt_def Let_def
      samplePoint_sel parseTime_sample_ok parseTime_TNull positionBetween_def
      binarySearch.simps [of _ _ _ 0 "Suc 0"])

lemma sample_position_equator_coords:
  "map_option pos_lng (getShipPositionAtTime sampleEnv sampleManager ''412000002''
      (TDate (Some 1704067500000))) = Some (Some 10)"
  "map_option pos_lat (getShipPositionAtTime sampleEnv sampleManager ''412000002''
      (TDate (Some 1704067500000))) = Some (Some 0)"
  "map_option pos_lon (getShipPositionAtTime sampleEnv sampleManager ''412000002''
      (TDate (Some 1704067500000))) = Some (Some 10)"
  by (simp_all add: sample_position_equator setDirection_coords formatPosition_coords
      samplePoint_coords)

text \<open>
  \<^bold>\<open>C8\<close> as the claim states it fails: at the tick 00:05 the second sample ship is
  active and its position has the finite coordinates longitude \<open>10\<close> and latitude \<open>0\<close>,
  yet it is left out of the snapshot.
\<close>

theorem C8_zero_latitude_omitted_counterexample:
  "''412000002'' \<in> set (getActiveShipsAtTime sampleEnv sampleController
                          (TDate (Some 1704067500000))) \<and>
   map_option pos_lng (getShipPositionAtTime sampleEnv sampleManager ''412000002''
      (TDate (Some 1704067500000))) = Some (Some 10) \<and>
   map_option pos_lat (getShipPositionAtTime sampleEnv sampleManager ''412000002''
      (TDate (Some 1704067500000))) = Some (Some 0) \<and>
   ''412000002'' \<notin> dom (updateAllShipsPositions sampleEnv sampleController sampleManager
                          (TDate (Some 1704067500000)))"
proof -
  have "''412000002'' \<notin> dom (updateAllShipsPositions sampleEnv sampleController sampleManager
                          (TDate (Some 1704067500000)))"
    unfolding updateAllShipsPositions_dom
    by (simp add: sample_position_equator setDirection_coords formatPosition_coords
        samplePoint_coords truthyN_def)
  then show ?thesis
    by (simp add: sample_active_tick sample_position_equator_coords)
qed

text \<open>
  \<^bold>\<open>C8\<close>, amended. The keys of the snapshot are active ids, and an active entity with a
  non-empty id for which the store returns a position is in the snapshot exactly when the
  position's latitude is truthy and its \<^verbatim>\<open>lng\<close> or \<^verbatim>\<open>lon\<close> is truthy. So it is left
  out (without any error) when a coordinate is \<^verbatim>\<open>NaN\<close>, and it is present when the
  longitude and the latitude are finite and not zero; a coordinate that is exactly zero is
  treated like a missing one.
\<close>

theorem C8_snapshot_membership:
  assumes "mmsi \<in> set (getActiveShipsAtTime e tsc v)" and "mmsi \<noteq> []"
      and "getShipPositionAtTime e msm mmsi v = Some pos"
  shows "dom (updateAllShipsPositions e tsc msm v) \<subseteq> set (getActiveShipsAtTime e tsc v) \<and>
         (mmsi \<in> dom (updateAllShipsPositions e tsc msm v) \<longleftrightarrow>
            truthyN (pos_lat pos) \<and> (truthyN (pos_lng pos) \<or> truthyN (pos_lon pos))) \<and>
         (pos_lat pos = None \<or> (pos_lng pos = None \<and> pos_lon pos = None)
            \<longrightarrow> mmsi \<notin> dom (updateAllShipsPositions e tsc msm v)) \<and>
         (pos_lng pos = Some x \<and> x \<noteq> 0 \<and> pos_lat pos = Some y \<and> y \<noteq> 0
            \<longrightarrow> mmsi \<in> dom (updateAllShipsPositions e tsc msm v))"
proof -
  have sub: "dom (updateAllShipsPositions e tsc msm v) \<subseteq> set (getActiveShipsAtTime e tsc v)"
    unfolding updateAllShipsPositions_dom by blast
  have iff: "mmsi \<in> dom (updateAllShipsPositions e tsc msm v) \<longleftrightarrow>
            truthyN (pos_lat pos) \<and> (truthyN (pos_lng pos) \<or> truthyN (pos_lon pos))"
    unfolding updateAllShipsPositions_dom using assms by auto
  have nan: "\<not> truthyN None" by (simp add: truthyN_def)
  have fin: "truthyN (Some z) \<longleftrightarrow> z \<noteq> 0" for z by (simp add: truthyN_def)
  show ?thesis
    using sub iff nan fin by auto
qed

lemma sample_position_first:
  "getShipPositionAtTime sampleEnv sampleManager ''412000001'' (TDate (Some 1704067500000)) =
     Some (interpolatePosition
             (samplePoint (TStr ''2024-01-01T00:00:00.000Z'') (Some 120) (Some 30))
             (samplePoint (TStr ''2024-01-01T00:10:00.000Z'') (Some 121) (Some 31))
             (Some (1 / 2)))"
proof -
  let ?p1 = "samplePoint (TStr ''2024-01-01T00:00:00.000Z'') (Some 120) (Some 30)"
  let ?p2 = "samplePoint (TStr ''2024-01-01T00:10:00.000Z'') (Some 121) (Some 31)"
  obtain sd where sd: "map_of (ships sampleManager) ''412000001'' = Some sd"
    "trajectory sd = [?p1, ?p2]"
    by (simp add: sample_ships)
  have v: "msm_time sampleEnv (TDate (Some 1704067500000)) = Some (Some 1704067500000)"
    by (simp add: msm_time_def)
  have bs: "binarySearch sampleEnv (trajectory sd) (Some 1704067500000) 0
              (length (trajectory sd) - 1) = (0, 1)"
    by (simp add: sd(2) binarySearch.simps [of _ _ _ 0 "Suc 0"])
  have t1: "parseTime sampleEnv (postime (trajectory sd ! 0)) = Some 1704067200000"
    by (simp add: sd(2) samplePoint_sel parseTime_sample_ok)
  have t2: "parseTime sampleEnv (postime (trajectory sd ! 1)) = Some 1704067800000"
    by (simp add: sd(2) samplePoint_sel parseTime_sample_ok)
  have "getShipPositionAtTime sampleEnv (initializeShips sampleEnv (Some sampleGroups))
          ''412000001'' (TDate (Some 1704067500000)) =
        Some (interpolatePosition (trajectory sd ! 0) (trajectory sd ! 1) (Some (1 / 2)))"
    unfolding sample_half_progress [symmetric]
    by (rule getShipPositionAtTime_interpolates
          [OF sd(1) [unfolded sampleManager_def] v bs t1 t2]) simp_all
  then show ?thesis by (simp add: sd(2) sampleManager_def)
qed

theorem C8_snapshot_membership_witness:
  "''412000001'' \<in> set (getActiveShipsAtTime sampleEnv sampleController
                          (TDate (Some 1704067500000))) \<and>
   map_option pos_lng (getShipPositionAtTime sampleEnv sampleManager ''412000001''
      (TDate (Some 1704067500000))) = Some (Some (241 / 2)) \<and>
   map_option pos_lat (getShipPositionAtTime sampleEnv sampleManager ''412000001''
      (TDate (Some 1704067500000))) = Some (Some (61 / 2)) \<and>
   ''412000001'' \<in> dom (updateAllShipsPositions sampleEnv sampleController sampleManager
                        (TDate (Some 1704067500000)))"
proof -
  let ?pos = "interpolatePosition
             (samplePoint (TStr ''2024-01-01T00:00:00.000Z'') (Some 120) (Some 30))
             (samplePoint (TStr ''2024-01-01T00:10:00.000Z'') (Some 121) (Some 31))
             (Some (1 / 2))"
  have a: "''412000001'' \<in> set (getActiveShipsAtTime sampleEnv sampleController
                          (TDate (Some 1704067500000)))"
    by (simp add: sample_active_tick)
  have n: "''412000001'' \<noteq> []" by simp
  have c: "pos_lng ?pos = Some (241 / 2)" "pos_lat ?pos = Some (61 / 2)"
    by (simp_all only: interpolatePosition_coords samplePoint_coords sample_longitude
        sample_latitude)
  from C8_snapshot_membership [OF a n sample_position_first, of "241 / 2" "61 / 2"] a c
  show ?thesis by (simp add: sample_position_first truthyN_def)
qed

end
